theory Spec2Isabelle
  imports Main "HOL-Library.Word"
begin

section \<open>The wallet's node RPC proxy (wallet/node-rpc-proxy)\<close>

text \<open>
  \<open>NodeRPCProxy\<close> caches answers of the daemon. Its methods are embedded as functions
  that take the proxy's members and the outside world (wall clock and daemon) and
  return the result together with the updated members and world. The recursive mutex
  only brackets the network call; the embedding is the sequential semantics of one
  thread and does not model it.
\<close>

subsection \<open>Data\<close>

type_synonym u8 = "8 word"
type_synonym u32 = "32 word"
type_synonym u64 = "64 word"

text \<open>
  \<open>time_t\<close> is the signed 64-bit integer of the usual build: a 64-bit word read by
  \<open>sint\<close> and compared by \<open><s\<close> and \<open>\<le>s\<close>. The sums \<open>m_height_time + 30\<close> and
  \<open>m_get_info_time + 30\<close> wrap around, as the compiled code does (C++ leaves the
  overflow of a signed addition undefined). \<open>LONG_MAX\<close> is the largest time.
\<close>

type_synonym time_t = "64 word"

definition LONG_MAX :: int where
  "LONG_MAX = 9223372036854775807"

text \<open>
  The members of the class. The type of a roster entry
  (\<open>COMMAND_RPC_GET_SERVICE_NODES::response::entry\<close>) is a parameter. The array
  \<open>m_earliest_height\<close> has one slot for each value of its \<open>uint8_t\<close> index.
\<close>

record 'e NodeRPCProxy =
  m_offline :: bool
  m_all_service_nodes_cached_height :: u64
  m_all_service_nodes :: "'e list"
  m_height :: u64
  m_earliest_height :: "u8 \<Rightarrow> u64"
  m_dynamic_base_fee_estimate :: u64
  m_dynamic_base_fee_estimate_cached_height :: u64
  m_dynamic_base_fee_estimate_grace_blocks :: u64
  m_fee_quantization_mask :: u64
  m_rpc_version :: u32
  m_target_height :: u64
  m_block_weight_limit :: u64
  m_get_info_time :: time_t
  m_height_time :: time_t

text \<open>
  A call of \<open>invoke_http_json_rpc\<close>: the JSON RPC method with the request fields the
  proxy sets (\<open>hard_fork_info\<close> carries \<open>req.version\<close>, \<open>get_fee_estimate\<close> carries
  \<open>req.grace_blocks\<close>, \<open>get_service_nodes\<close> carries the public keys).
\<close>

datatype rpc_request =
    GET_VERSION
  | GET_INFO
  | HARD_FORK_INFO u8
  | GET_FEE_ESTIMATE u64
  | GET_SERVICE_NODES "string list"
  | GET_ALL_SERVICE_NODES

text \<open>
  The response structures, merged into one record: each method reads only the fields
  of its own response type.
\<close>

record 'e rpc_response =
  res_status :: string
  res_version :: u32
  res_height :: u64
  res_target_height :: u64
  res_block_weight_limit :: u64
  res_block_size_limit :: u64
  res_hf_version :: u8
  res_earliest_height :: u64
  res_fee :: u64
  res_quantization_mask :: u64
  res_service_node_states :: "'e list"

text \<open>
  The world outside the proxy. \<open>clock\<close> lists the successive readings of
  \<open>time(NULL)\<close> and \<open>clock_reads\<close> counts the readings made so far. \<open>net\<close> gives, for
  the n-th network call and its request, the boolean \<open>invoke_http_json_rpc\<close> returns
  and the response it fills in; \<open>calls\<close> is the log of the calls made so far.
\<close>

record 'e world =
  clock :: "nat \<Rightarrow> time_t"
  clock_reads :: nat
  net :: "nat \<Rightarrow> rpc_request \<Rightarrow> bool \<times> 'e rpc_response"
  calls :: "rpc_request list"

definition time_NULL :: "'e world \<Rightarrow> time_t \<times> 'e world" where
  "time_NULL w = (clock w (clock_reads w), w\<lparr>clock_reads := Suc (clock_reads w)\<rparr>)"

definition invoke_http_json_rpc ::
  "rpc_request \<Rightarrow> 'e world \<Rightarrow> (bool \<times> 'e rpc_response) \<times> 'e world" where
  "invoke_http_json_rpc req w =
     (net w (length (calls w)) req, w\<lparr>calls := calls w @ [req]\<rparr>)"

text \<open>
  Modelled from the spec: the status strings \<open>CORE_RPC_STATUS_OK\<close> and
  \<open>CORE_RPC_STATUS_BUSY\<close> are defined in a header that is not part of the sources;
  the spec calls them the reserved "ok" and "busy" sentinels.
\<close>

definition CORE_RPC_STATUS_OK :: string where
  "CORE_RPC_STATUS_OK = ''OK''"

definition CORE_RPC_STATUS_BUSY :: string where
  "CORE_RPC_STATUS_BUSY = ''BUSY''"

text \<open>
  Modelled from the spec: the macro \<open>CHECK_AND_ASSERT_MES(expr, fail_ret_val, message)\<close>
  is defined in a header that is not part of the sources. By the spec every failed
  check of a response ends the accessor at once with the failure, and nothing is
  thrown: when \<open>expr\<close> is false the macro logs the message and makes the enclosing
  method return \<open>fail_ret_val\<close>. Here \<open>Some v\<close> is the enclosing method returning
  \<open>v\<close>, and \<open>continue\<close> is the code after the macro.
\<close>

definition CHECK_AND_ASSERT_MES :: "bool \<Rightarrow> 'a \<Rightarrow> 'a option \<Rightarrow> 'a option" where
  "CHECK_AND_ASSERT_MES expr fail_ret_val continue =
     (if expr then continue else Some fail_ret_val)"

text \<open>
  The macro \<open>RETURN_ON_RPC_RESPONSE_ERROR\<close>: the value it makes the method return, or
  \<open>None\<close> when it falls through. Every caller passes a fresh \<open>json_rpc::error\<close>
  as the error argument, whose code is 0 and whose message is empty, so the first
  check passes always.
\<close>

definition RETURN_ON_RPC_RESPONSE_ERROR :: "bool \<Rightarrow> 'e rpc_response \<Rightarrow> string option" where
  "RETURN_ON_RPC_RESPONSE_ERROR r res =
     CHECK_AND_ASSERT_MES ((0 :: int) = 0) []
       (CHECK_AND_ASSERT_MES r ''Failed to connect to daemon''
          (CHECK_AND_ASSERT_MES (res_status res \<noteq> []) (res_status res)
             (CHECK_AND_ASSERT_MES (res_status res \<noteq> CORE_RPC_STATUS_BUSY) (res_status res)
                (CHECK_AND_ASSERT_MES (res_status res = CORE_RPC_STATUS_OK) (res_status res)
                   None))))"

subsection \<open>Construction and invalidation\<close>

text \<open>The loop \<open>for (size_t n = 0; n < 256; ++n) m_earliest_height[n] = 0\<close>.\<close>

function invalidate_loop :: "nat \<Rightarrow> (u8 \<Rightarrow> u64) \<Rightarrow> (u8 \<Rightarrow> u64)" where
  "invalidate_loop n a =
     (if n < 256 then invalidate_loop (n + 1) (a(of_nat n := 0)) else a)"
  by pat_completeness auto
termination
  by (relation "measure (\<lambda>(n, a). 256 - n)") auto

declare invalidate_loop.simps [simp del]

definition invalidate :: "'e NodeRPCProxy \<Rightarrow> 'e NodeRPCProxy" where
  "invalidate p =
     p\<lparr>m_all_service_nodes_cached_height := 0,
       m_all_service_nodes := [],
       m_height := 0,
       m_earliest_height := invalidate_loop 0 (m_earliest_height p),
       m_dynamic_base_fee_estimate := 0,
       m_dynamic_base_fee_estimate_cached_height := 0,
       m_dynamic_base_fee_estimate_grace_blocks := 0,
       m_fee_quantization_mask := 1,
       m_rpc_version := 0,
       m_target_height := 0,
       m_block_weight_limit := 0,
       m_get_info_time := 0,
       m_height_time := 0\<rparr>"

text \<open>
  The constructor: whatever the members hold before, \<open>m_offline\<close> is initialised to
  false and \<open>invalidate\<close> runs.
\<close>

definition NodeRPCProxy_ctor :: "'e NodeRPCProxy \<Rightarrow> 'e NodeRPCProxy" where
  "NodeRPCProxy_ctor uninit = invalidate (uninit\<lparr>m_offline := False\<rparr>)"

subsection \<open>Accessors\<close>

text \<open>
  A method returning \<open>boost::optional<std::string>\<close> and writing its answer through a
  reference returns here \<open>Inl\<close> of the error string, or \<open>Inr\<close> of the answer.
\<close>

definition get_rpc_version ::
  "'e NodeRPCProxy \<Rightarrow> 'e world \<Rightarrow> (string + u32) \<times> 'e NodeRPCProxy \<times> 'e world" where
  "get_rpc_version p w =
     (if m_offline p then (Inl ''offline'', p, w)
      else if m_rpc_version p = 0 then
        (case invoke_http_json_rpc GET_VERSION w of
           ((r, resp_t), w') \<Rightarrow>
             (case RETURN_ON_RPC_RESPONSE_ERROR r resp_t of
                Some e \<Rightarrow> (Inl e, p, w')
              | None \<Rightarrow>
                  (let p' = p\<lparr>m_rpc_version := res_version resp_t\<rparr>
                   in (Inr (m_rpc_version p'), p', w'))))
      else (Inr (m_rpc_version p), p, w))"

definition set_height ::
  "u64 \<Rightarrow> 'e NodeRPCProxy \<Rightarrow> 'e world \<Rightarrow> 'e NodeRPCProxy \<times> 'e world" where
  "set_height h p w =
     (case time_NULL w of
        (now, w') \<Rightarrow> (p\<lparr>m_height := h, m_height_time := now\<rparr>, w'))"

definition get_info ::
  "'e NodeRPCProxy \<Rightarrow> 'e world \<Rightarrow> string option \<times> 'e NodeRPCProxy \<times> 'e world" where
  "get_info p w =
     (if m_offline p then (Some ''offline'', p, w)
      else
        (case time_NULL w of
           (now, w1) \<Rightarrow>
             if m_get_info_time p + 30 \<le>s now then
               (case invoke_http_json_rpc GET_INFO w1 of
                  ((r, resp_t), w2) \<Rightarrow>
                    (case RETURN_ON_RPC_RESPONSE_ERROR r resp_t of
                       Some e \<Rightarrow> (Some e, p, w2)
                     | None \<Rightarrow>
                         (None,
                          p\<lparr>m_height := res_height resp_t,
                            m_target_height := res_target_height resp_t,
                            m_block_weight_limit :=
                              (if res_block_weight_limit resp_t \<noteq> 0
                               then res_block_weight_limit resp_t
                               else res_block_size_limit resp_t),
                            m_get_info_time := now,
                            m_height_time := now\<rparr>,
                          w2)))
             else (None, p, w1)))"

definition get_height ::
  "'e NodeRPCProxy \<Rightarrow> 'e world \<Rightarrow> (string + u64) \<times> 'e NodeRPCProxy \<times> 'e world" where
  "get_height p w =
     (case time_NULL w of
        (now, w1) \<Rightarrow>
          if now <s m_height_time p + 30 then (Inr (m_height p), p, w1)
          else
            (case get_info p w1 of
               (Some e, p', w2) \<Rightarrow> (Inl e, p', w2)
             | (None, p', w2) \<Rightarrow> (Inr (m_height p'), p', w2)))"

definition get_target_height ::
  "'e NodeRPCProxy \<Rightarrow> 'e world \<Rightarrow> (string + u64) \<times> 'e NodeRPCProxy \<times> 'e world" where
  "get_target_height p w =
     (case get_info p w of
        (Some e, p', w') \<Rightarrow> (Inl e, p', w')
      | (None, p', w') \<Rightarrow> (Inr (m_target_height p'), p', w'))"

definition get_block_weight_limit ::
  "'e NodeRPCProxy \<Rightarrow> 'e world \<Rightarrow> (string + u64) \<times> 'e NodeRPCProxy \<times> 'e world" where
  "get_block_weight_limit p w =
     (case get_info p w of
        (Some e, p', w') \<Rightarrow> (Inl e, p', w')
      | (None, p', w') \<Rightarrow> (Inr (m_block_weight_limit p'), p', w'))"

definition get_earliest_height ::
  "u8 \<Rightarrow> 'e NodeRPCProxy \<Rightarrow> 'e world \<Rightarrow> (string + u64) \<times> 'e NodeRPCProxy \<times> 'e world" where
  "get_earliest_height version p w =
     (if m_offline p then (Inl ''offline'', p, w)
      else if m_earliest_height p version = 0 then
        (case invoke_http_json_rpc (HARD_FORK_INFO version) w of
           ((r, resp_t), w') \<Rightarrow>
             (case RETURN_ON_RPC_RESPONSE_ERROR r resp_t of
                Some e \<Rightarrow> (Inl e, p, w')
              | None \<Rightarrow>
                  (let p' = p\<lparr>m_earliest_height :=
                                 (m_earliest_height p)(version := res_earliest_height resp_t)\<rparr>
                   in (Inr (m_earliest_height p' version), p', w'))))
      else (Inr (m_earliest_height p version), p, w))"

text \<open>
  \<open>get_hardfork_version\<close> sends a value-initialised request (version 0) and returns an
  empty optional (the \<open>{}\<close> of its three checks) on each of its failures.
\<close>

definition get_hardfork_version ::
  "'e NodeRPCProxy \<Rightarrow> 'e world \<Rightarrow> u8 option \<times> 'e NodeRPCProxy \<times> 'e world" where
  "get_hardfork_version p w =
     (case invoke_http_json_rpc (HARD_FORK_INFO 0) w of
        ((r, resp), w') \<Rightarrow>
          (case CHECK_AND_ASSERT_MES r None
                  (CHECK_AND_ASSERT_MES (res_status resp \<noteq> CORE_RPC_STATUS_BUSY) None
                     (CHECK_AND_ASSERT_MES (res_status resp = CORE_RPC_STATUS_OK) None None)) of
             Some ret \<Rightarrow> (ret, p, w')
           | None \<Rightarrow> (Some (res_hf_version resp), p, w')))"

definition get_dynamic_base_fee_estimate ::
  "u64 \<Rightarrow> 'e NodeRPCProxy \<Rightarrow> 'e world \<Rightarrow> (string + u64) \<times> 'e NodeRPCProxy \<times> 'e world" where
  "get_dynamic_base_fee_estimate grace_blocks p w =
     (case get_height p w of
        (Inl e, p1, w1) \<Rightarrow> (Inl e, p1, w1)
      | (Inr height, p1, w1) \<Rightarrow>
          if m_offline p1 then (Inl ''offline'', p1, w1)
          else if m_dynamic_base_fee_estimate_cached_height p1 \<noteq> height
                  \<or> m_dynamic_base_fee_estimate_grace_blocks p1 \<noteq> grace_blocks then
            (case invoke_http_json_rpc (GET_FEE_ESTIMATE grace_blocks) w1 of
               ((r, resp_t), w2) \<Rightarrow>
                 (case RETURN_ON_RPC_RESPONSE_ERROR r resp_t of
                    Some e \<Rightarrow> (Inl e, p1, w2)
                  | None \<Rightarrow>
                      (let p2 = p1\<lparr>m_dynamic_base_fee_estimate := res_fee resp_t,
                                   m_dynamic_base_fee_estimate_cached_height := height,
                                   m_dynamic_base_fee_estimate_grace_blocks := grace_blocks,
                                   m_fee_quantization_mask := res_quantization_mask resp_t\<rparr>
                       in (Inr (m_dynamic_base_fee_estimate p2), p2, w2))))
          else (Inr (m_dynamic_base_fee_estimate p1), p1, w1))"

definition get_fee_quantization_mask ::
  "'e NodeRPCProxy \<Rightarrow> 'e world \<Rightarrow> (string + u64) \<times> 'e NodeRPCProxy \<times> 'e world" where
  "get_fee_quantization_mask p w =
     (case get_height p w of
        (Inl e, p1, w1) \<Rightarrow> (Inl e, p1, w1)
      | (Inr height, p1, w1) \<Rightarrow>
          if m_offline p1 then (Inl ''offline'', p1, w1)
          else
            (case (if m_dynamic_base_fee_estimate_cached_height p1 \<noteq> height then
                     (case invoke_http_json_rpc
                             (GET_FEE_ESTIMATE (m_dynamic_base_fee_estimate_grace_blocks p1)) w1 of
                        ((r, resp_t), w2) \<Rightarrow>
                          (case RETURN_ON_RPC_RESPONSE_ERROR r resp_t of
                             Some e \<Rightarrow> (Some e, p1, w2)
                           | None \<Rightarrow>
                               (None,
                                p1\<lparr>m_dynamic_base_fee_estimate := res_fee resp_t,
                                   m_dynamic_base_fee_estimate_cached_height := height,
                                   m_fee_quantization_mask := res_quantization_mask resp_t\<rparr>,
                                w2)))
                   else (None, p1, w1)) of
               (Some e, p2, w2) \<Rightarrow> (Inl e, p2, w2)
             | (None, p2, w2) \<Rightarrow>
                 (let fee_quantization_mask = m_fee_quantization_mask p2
                  in if fee_quantization_mask = 0 then (Inr 1, p2, w2)
                     else (Inr fee_quantization_mask, p2, w2))))"

text \<open>
  The roster methods return the vector and report failure through the reference
  \<open>failed\<close>. \<open>get_service_nodes\<close> writes \<open>failed\<close> on failure only, so the value
  the caller passed in is an argument; \<open>get_all_service_nodes\<close> overwrites it first
  with the result of \<open>get_height\<close>.
\<close>

definition get_service_nodes ::
  "string list \<Rightarrow> string option \<Rightarrow> 'e NodeRPCProxy \<Rightarrow> 'e world
     \<Rightarrow> ('e list \<times> string option) \<times> 'e NodeRPCProxy \<times> 'e world" where
  "get_service_nodes pubkeys failed p w =
     (case invoke_http_json_rpc (GET_SERVICE_NODES pubkeys) w of
        ((r, res), w') \<Rightarrow>
          if \<not> r then (([], Some ''Failed to connect to daemon''), p, w')
          else if res_status res = CORE_RPC_STATUS_BUSY then (([], Some (res_status res)), p, w')
          else if res_status res \<noteq> CORE_RPC_STATUS_OK then (([], Some (res_status res)), p, w')
          else ((res_service_node_states res, failed), p, w'))"

definition get_all_service_nodes ::
  "'e NodeRPCProxy \<Rightarrow> 'e world \<Rightarrow> ('e list \<times> string option) \<times> 'e NodeRPCProxy \<times> 'e world" where
  "get_all_service_nodes p w =
     (case get_height p w of
        (Inl e, p1, w1) \<Rightarrow> (([], Some e), p1, w1)
      | (Inr height, p1, w1) \<Rightarrow>
          if m_all_service_nodes_cached_height p1 \<noteq> height then
            (case invoke_http_json_rpc GET_ALL_SERVICE_NODES w1 of
               ((r, res), w2) \<Rightarrow>
                 if \<not> r then (([], Some ''Failed to connect to daemon''), p1, w2)
                 else if res_status res = CORE_RPC_STATUS_BUSY
                   then (([], Some (res_status res)), p1, w2)
                 else
                   (let failed = (if res_status res \<noteq> CORE_RPC_STATUS_OK
                                  then Some (res_status res) else None);
                        p2 = p1\<lparr>m_all_service_nodes_cached_height := height,
                                m_all_service_nodes := res_service_node_states res\<rparr>
                    in ((m_all_service_nodes p2, failed), p2, w2)))
          else ((m_all_service_nodes p1, None), p1, w1))"

subsection \<open>Concrete proxies, daemons and clocks\<close>

text \<open>
  States and worlds on which the examples below run; roster entries are strings there.
  \<open>used_proxy\<close> is a proxy after some use, every cached member set.
\<close>

definition used_proxy :: "string NodeRPCProxy" where
  "used_proxy =
     \<lparr>m_offline = False,
      m_all_service_nodes_cached_height = 100,
      m_all_service_nodes = [''sn1''],
      m_height = 100,
      m_earliest_height = (\<lambda>v. if v = 5 then 77 else 0),
      m_dynamic_base_fee_estimate = 5000,
      m_dynamic_base_fee_estimate_cached_height = 100,
      m_dynamic_base_fee_estimate_grace_blocks = 2,
      m_fee_quantization_mask = 10000,
      m_rpc_version = 3,
      m_target_height = 110,
      m_block_weight_limit = 300000,
      m_get_info_time = 1000,
      m_height_time = 1000\<rparr>"

text \<open>The proxy as \<open>invalidate\<close> leaves it, written out.\<close>

definition pristine_proxy :: "string NodeRPCProxy" where
  "pristine_proxy =
     \<lparr>m_offline = False,
      m_all_service_nodes_cached_height = 0,
      m_all_service_nodes = [],
      m_height = 0,
      m_earliest_height = (\<lambda>v. 0),
      m_dynamic_base_fee_estimate = 0,
      m_dynamic_base_fee_estimate_cached_height = 0,
      m_dynamic_base_fee_estimate_grace_blocks = 0,
      m_fee_quantization_mask = 1,
      m_rpc_version = 0,
      m_target_height = 0,
      m_block_weight_limit = 0,
      m_get_info_time = 0,
      m_height_time = 0\<rparr>"

text \<open>A daemon's answer, with status OK.\<close>

definition daemon_reply :: "string rpc_response" where
  "daemon_reply =
     \<lparr>res_status = CORE_RPC_STATUS_OK,
      res_version = 3,
      res_height = 100,
      res_target_height = 110,
      res_block_weight_limit = 300000,
      res_block_size_limit = 600000,
      res_hf_version = 9,
      res_earliest_height = 1234,
      res_fee = 5000,
      res_quantization_mask = 10000,
      res_service_node_states = [''sn1'', ''sn2'']\<rparr>"

text \<open>
  A world that has seen no call yet: its clock shows \<open>t\<close>, then the times of
  \<open>ts\<close> one after the other, then the last of them at every later reading; the
  daemon answers every request with \<open>reply\<close> (\<open>connected\<close> is what
  \<open>invoke_http_json_rpc\<close> returns).
\<close>

definition world_with ::
  "time_t \<Rightarrow> time_t list \<Rightarrow> bool \<Rightarrow> string rpc_response \<Rightarrow> string world" where
  "world_with t ts connected reply =
     \<lparr>clock = (\<lambda>n. (t # ts) ! min n (length ts)),
      clock_reads = 0,
      net = (\<lambda>n req. (connected, reply)),
      calls = []\<rparr>"

section \<open>Properties\<close>

subsection \<open>The loop of \<open>invalidate\<close>\<close>

lemma unat_u8_less: "unat (v :: u8) < 256"
  using unsigned_less [of v, where ?'a = nat] by simp

lemma of_nat_u8_eq_iff: "n < 256 \<Longrightarrow> ((of_nat n :: u8) = v) = (n = unat v)"
proof
  assume "n < 256" "(of_nat n :: u8) = v"
  then show "n = unat v" by (auto simp: unat_of_nat)
next
  assume "n = unat v"
  then show "(of_nat n :: u8) = v" by simp
qed

text \<open>Started at \<open>n\<close>, the loop clears the slots from \<open>n\<close> on and keeps the others.\<close>

lemma invalidate_loop_apply:
  "n \<le> 256 \<Longrightarrow> invalidate_loop n a v = (if n \<le> unat v then 0 else a v)"
proof (induction n a rule: invalidate_loop.induct)
  case (1 n a)
  show ?case
  proof (cases "n < 256")
    case True
    then have "invalidate_loop n a v = invalidate_loop (n + 1) (a(of_nat n := 0)) v"
      by (subst invalidate_loop.simps) simp
    also have "\<dots> = (if n + 1 \<le> unat v then 0 else (a(of_nat n := 0)) v)"
      by (rule "1.IH" [OF True]) (use True in simp)
    also have "\<dots> = (if n \<le> unat v then 0 else a v)"
    proof (cases "n = unat v")
      case True
      then show ?thesis by simp
    next
      case False
      with \<open>n < 256\<close> have "v \<noteq> of_nat n"
        using of_nat_u8_eq_iff [of n v] by auto
      with False show ?thesis by auto
    qed
    finally show ?thesis .
  next
    case False
    with "1.prems" have "n = 256" by simp
    then show ?thesis using unat_u8_less [of v] by (subst invalidate_loop.simps) simp
  qed
qed

lemma invalidate_loop_0: "invalidate_loop 0 a = (\<lambda>v. 0)"
  by (rule ext) (simp add: invalidate_loop_apply)

subsection \<open>C1: what \<open>invalidate\<close> leaves behind\<close>

text \<open>
  C1 says that after \<open>invalidate\<close> every cached member is zero or empty, the fee
  quantization mask included. The mask is the exception: \<open>invalidate\<close> (and so the
  constructor) sets it to 1, as the example shows on a proxy that has been used.
\<close>

theorem invalidate_mask_counterexample:
  "m_fee_quantization_mask (invalidate used_proxy) \<noteq> 0
   \<and> m_fee_quantization_mask (NodeRPCProxy_ctor used_proxy) \<noteq> 0"
  by (simp add: invalidate_def NodeRPCProxy_ctor_def)

text \<open>
  C1, amended: after \<open>invalidate\<close>, from every prior state, the members
  \<open>rpc_version\<close>, \<open>height\<close>, \<open>height_time\<close>, \<open>target_height\<close>,
  \<open>block_weight_limit\<close>, \<open>get_info_time\<close>, every \<open>earliest_height[v]\<close>,
  \<open>fee_estimate\<close>, \<open>fee_estimate_height\<close>, \<open>fee_estimate_grace_blocks\<close> and
  \<open>all_service_nodes_height\<close> are 0 and \<open>all_service_nodes\<close> is empty, while
  \<open>fee_quantization_mask\<close> is 1; the offline flag is kept. The constructor is
  \<open>invalidate\<close> on a proxy that is not offline, and \<open>invalidate\<close> is idempotent.
\<close>

theorem invalidate_resets:
  "m_rpc_version (invalidate p) = 0
   \<and> m_height (invalidate p) = 0
   \<and> m_height_time (invalidate p) = 0
   \<and> m_target_height (invalidate p) = 0
   \<and> m_block_weight_limit (invalidate p) = 0
   \<and> m_get_info_time (invalidate p) = 0
   \<and> (\<forall>v. m_earliest_height (invalidate p) v = 0)
   \<and> m_dynamic_base_fee_estimate (invalidate p) = 0
   \<and> m_dynamic_base_fee_estimate_cached_height (invalidate p) = 0
   \<and> m_dynamic_base_fee_estimate_grace_blocks (invalidate p) = 0
   \<and> m_fee_quantization_mask (invalidate p) = 1
   \<and> m_all_service_nodes (invalidate p) = []
   \<and> m_all_service_nodes_cached_height (invalidate p) = 0
   \<and> m_offline (invalidate p) = m_offline p
   \<and> NodeRPCProxy_ctor p = invalidate (p\<lparr>m_offline := False\<rparr>)
   \<and> \<not> m_offline (NodeRPCProxy_ctor p)
   \<and> m_fee_quantization_mask (NodeRPCProxy_ctor p) = 1
   \<and> invalidate (invalidate p) = invalidate p"
  by (simp add: invalidate_def invalidate_loop_0 NodeRPCProxy_ctor_def)

theorem invalidate_resets_witness:
  "invalidate used_proxy = pristine_proxy \<and> NodeRPCProxy_ctor used_proxy = pristine_proxy"
proof -
  have "invalidate used_proxy = pristine_proxy"
    using invalidate_resets [of used_proxy]
    by (simp add: pristine_proxy_def used_proxy_def invalidate_def fun_eq_iff)
  moreover have "NodeRPCProxy_ctor used_proxy = pristine_proxy"
    using invalidate_resets [of "used_proxy\<lparr>m_offline := False\<rparr>"]
    by (simp add: pristine_proxy_def used_proxy_def invalidate_def NodeRPCProxy_ctor_def fun_eq_iff)
  ultimately show ?thesis by simp
qed

subsection \<open>Times\<close>

text \<open>As long as \<open>t + 30\<close> is a time, the sum on \<open>time_t\<close> is the sum of integers.\<close>

lemma sint_plus_30:
  fixes t :: time_t
  assumes "sint t + 30 \<le> LONG_MAX"
  shows "sint (t + 30) = sint t + 30"
proof -
  have lo: "- (2 ^ 63) \<le> sint t"
    using sint_ge [of t] by simp
  have hi: "sint t + 30 < 2 ^ 63"
    using assms by (simp add: LONG_MAX_def)
  have "sint (t + 30) = signed_take_bit 63 (sint t + sint (30 :: time_t))"
    by (simp add: sint_word_ariths)
  also have "\<dots> = signed_take_bit 63 (sint t + 30)"
    by simp
  also have "\<dots> = sint t + 30"
    using lo hi by (intro signed_take_bit_int_eq_self) simp_all
  finally show ?thesis .
qed

lemma before_plus_30:
  fixes t ht :: time_t
  shows "sint ht + 30 \<le> LONG_MAX \<Longrightarrow> (t <s ht + 30) = (sint t < sint ht + 30)"
  by (simp add: word_sless_alt sint_plus_30)

lemma from_plus_30:
  fixes t ht :: time_t
  shows "sint ht + 30 \<le> LONG_MAX \<Longrightarrow> (ht + 30 \<le>s t) = (sint ht + 30 \<le> sint t)"
  by (simp add: word_sle_eq sint_plus_30)

lemma not_before_iff:
  fixes a b :: time_t
  shows "(\<not> a <s b) = (b \<le>s a)"
  by (auto simp: word_sless_alt word_sle_eq)

subsection \<open>The status check\<close>

lemma status_OK_not_BUSY: "CORE_RPC_STATUS_OK \<noteq> CORE_RPC_STATUS_BUSY"
  by (simp add: CORE_RPC_STATUS_OK_def CORE_RPC_STATUS_BUSY_def)

lemma status_OK_not_empty: "CORE_RPC_STATUS_OK \<noteq> []"
  by (simp add: CORE_RPC_STATUS_OK_def)

lemma RETURN_ON_RPC_RESPONSE_ERROR_None:
  "RETURN_ON_RPC_RESPONSE_ERROR r res = None \<longleftrightarrow> r \<and> res_status res = CORE_RPC_STATUS_OK"
  using status_OK_not_BUSY status_OK_not_empty
  by (auto simp: RETURN_ON_RPC_RESPONSE_ERROR_def CHECK_AND_ASSERT_MES_def)

subsection \<open>\<open>get_info\<close> and \<open>get_height\<close>\<close>

text \<open>What \<open>get_info\<close> does, by the way it is taken.\<close>

lemma get_info_offline: "m_offline p \<Longrightarrow> get_info p w = (Some ''offline'', p, w)"
  by (simp add: get_info_def)

lemma get_info_fresh:
  "\<not> m_offline p \<Longrightarrow> clock w (clock_reads w) <s m_get_info_time p + 30 \<Longrightarrow>
   get_info p w = (None, p, w\<lparr>clock_reads := Suc (clock_reads w)\<rparr>)"
  by (simp add: get_info_def time_NULL_def flip: not_before_iff)

lemma get_info_fetch:
  "\<not> m_offline p \<Longrightarrow> m_get_info_time p + 30 \<le>s clock w (clock_reads w) \<Longrightarrow>
   net w (length (calls w)) GET_INFO = (r, resp_t) \<Longrightarrow>
   get_info p w =
     (case RETURN_ON_RPC_RESPONSE_ERROR r resp_t of
        Some e \<Rightarrow> (Some e, p, w\<lparr>clock_reads := Suc (clock_reads w), calls := calls w @ [GET_INFO]\<rparr>)
      | None \<Rightarrow>
          (None,
           p\<lparr>m_height := res_height resp_t,
             m_target_height := res_target_height resp_t,
             m_block_weight_limit :=
               (if res_block_weight_limit resp_t \<noteq> 0 then res_block_weight_limit resp_t
                else res_block_size_limit resp_t),
             m_get_info_time := clock w (clock_reads w),
             m_height_time := clock w (clock_reads w)\<rparr>,
           w\<lparr>clock_reads := Suc (clock_reads w), calls := calls w @ [GET_INFO]\<rparr>))"
  by (simp add: get_info_def time_NULL_def invoke_http_json_rpc_def split: option.splits)

lemma get_info_error_keeps: "get_info p w = (Some e, p', w') \<Longrightarrow> p' = p"
  by (auto simp: get_info_def time_NULL_def invoke_http_json_rpc_def
      split: if_splits option.splits prod.splits)

lemma get_info_calls:
  "calls (snd (snd (get_info p w))) =
     (if \<not> m_offline p \<and> m_get_info_time p + 30 \<le>s clock w (clock_reads w)
      then calls w @ [GET_INFO] else calls w)"
  by (simp add: get_info_def time_NULL_def invoke_http_json_rpc_def
      split: option.splits prod.splits)

subsection \<open>C4: a failed \<open>get_info\<close> keeps the cache\<close>

text \<open>
  C4: whenever \<open>get_info\<close> fails, the members after the call are the members before
  it and the error is returned; the failures are offline mode, a transport failure, an
  empty status, the busy status and any other status that is not OK. When the refresh
  succeeds (status OK), \<open>height\<close>, \<open>target_height\<close>, \<open>block_weight_limit\<close>,
  \<open>get_info_time\<close> and \<open>height_time\<close> are updated, the two times to the time read,
  and \<open>block_weight_limit\<close> takes the response's weight limit when that is not zero
  and its size limit otherwise. (Within 30 seconds of \<open>get_info_time\<close> there is no
  refresh: the call returns no error and changes nothing.) Here \<open>now\<close> is the time
  \<open>get_info\<close> reads and \<open>(r, resp_t)\<close> what the transport answers; the refresh is
  taken when \<open>m_get_info_time + 30 \<le>s now\<close>, the comparison the code makes.
\<close>

theorem get_info_failure_keeps_cache:
  fixes p :: "'e NodeRPCProxy" and w :: "'e world"
  assumes "now = clock w (clock_reads w)"
    and "net w (length (calls w)) GET_INFO = (r, resp_t)"
    and "w2 = w\<lparr>clock_reads := Suc (clock_reads w), calls := calls w @ [GET_INFO]\<rparr>"
  shows
    "(\<forall>e p' w'. get_info p w = (Some e, p', w') \<longrightarrow> p' = p)
     \<and> (m_offline p \<longrightarrow> get_info p w = (Some ''offline'', p, w))
     \<and> (\<not> m_offline p \<and> now <s m_get_info_time p + 30 \<longrightarrow>
          get_info p w = (None, p, w\<lparr>clock_reads := Suc (clock_reads w)\<rparr>))
     \<and> (\<not> m_offline p \<and> m_get_info_time p + 30 \<le>s now \<and> \<not> r \<longrightarrow>
          get_info p w = (Some ''Failed to connect to daemon'', p, w2))
     \<and> (\<not> m_offline p \<and> m_get_info_time p + 30 \<le>s now \<and> r \<and> res_status resp_t = [] \<longrightarrow>
          get_info p w = (Some [], p, w2))
     \<and> (\<not> m_offline p \<and> m_get_info_time p + 30 \<le>s now \<and> r
          \<and> res_status resp_t = CORE_RPC_STATUS_BUSY \<longrightarrow>
          get_info p w = (Some CORE_RPC_STATUS_BUSY, p, w2))
     \<and> (\<not> m_offline p \<and> m_get_info_time p + 30 \<le>s now \<and> r
          \<and> res_status resp_t \<noteq> CORE_RPC_STATUS_OK \<longrightarrow>
          get_info p w = (Some (res_status resp_t), p, w2))
     \<and> (\<not> m_offline p \<and> m_get_info_time p + 30 \<le>s now \<and> r
          \<and> res_status resp_t = CORE_RPC_STATUS_OK \<longrightarrow>
          get_info p w =
            (None,
             p\<lparr>m_height := res_height resp_t,
               m_target_height := res_target_height resp_t,
               m_block_weight_limit :=
                 (if res_block_weight_limit resp_t \<noteq> 0 then res_block_weight_limit resp_t
                  else res_block_size_limit resp_t),
               m_get_info_time := now,
               m_height_time := now\<rparr>,
             w2))"
proof -
  have keep: "\<forall>e p' w'. get_info p w = (Some e, p', w') \<longrightarrow> p' = p"
    using get_info_error_keeps by blast
  have off: "m_offline p \<longrightarrow> get_info p w = (Some ''offline'', p, w)"
    by (simp add: get_info_offline)
  have cached: "\<not> m_offline p \<and> now <s m_get_info_time p + 30 \<longrightarrow>
      get_info p w = (None, p, w\<lparr>clock_reads := Suc (clock_reads w)\<rparr>)"
    unfolding assms(1) by (simp add: get_info_fresh)
  have fetch: "get_info p w =
      (case RETURN_ON_RPC_RESPONSE_ERROR r resp_t of
         Some e \<Rightarrow> (Some e, p, w2)
       | None \<Rightarrow>
          (None,
           p\<lparr>m_height := res_height resp_t,
             m_target_height := res_target_height resp_t,
             m_block_weight_limit :=
               (if res_block_weight_limit resp_t \<noteq> 0 then res_block_weight_limit resp_t
                else res_block_size_limit resp_t),
             m_get_info_time := now,
             m_height_time := now\<rparr>,
           w2))"
    if "\<not> m_offline p" "m_get_info_time p + 30 \<le>s now"
    using get_info_fetch [of p w r resp_t] that assms(2)
    unfolding assms(1) assms(3) by simp
  have down: "\<not> m_offline p \<and> m_get_info_time p + 30 \<le>s now \<and> \<not> r \<longrightarrow>
      get_info p w = (Some ''Failed to connect to daemon'', p, w2)"
    using fetch by (simp add: RETURN_ON_RPC_RESPONSE_ERROR_def CHECK_AND_ASSERT_MES_def)
  have empty: "\<not> m_offline p \<and> m_get_info_time p + 30 \<le>s now \<and> r \<and> res_status resp_t = [] \<longrightarrow>
      get_info p w = (Some [], p, w2)"
    using fetch by (simp add: RETURN_ON_RPC_RESPONSE_ERROR_def CHECK_AND_ASSERT_MES_def)
  have busy: "\<not> m_offline p \<and> m_get_info_time p + 30 \<le>s now \<and> r
      \<and> res_status resp_t = CORE_RPC_STATUS_BUSY \<longrightarrow>
      get_info p w = (Some CORE_RPC_STATUS_BUSY, p, w2)"
    using fetch by (simp add: RETURN_ON_RPC_RESPONSE_ERROR_def CHECK_AND_ASSERT_MES_def)
  have other: "\<not> m_offline p \<and> m_get_info_time p + 30 \<le>s now \<and> r
      \<and> res_status resp_t \<noteq> CORE_RPC_STATUS_OK \<longrightarrow>
      get_info p w = (Some (res_status resp_t), p, w2)"
    using fetch by (simp add: RETURN_ON_RPC_RESPONSE_ERROR_def CHECK_AND_ASSERT_MES_def)
  have ok: "\<not> m_offline p \<and> m_get_info_time p + 30 \<le>s now \<and> r
      \<and> res_status resp_t = CORE_RPC_STATUS_OK \<longrightarrow>
      get_info p w =
        (None,
         p\<lparr>m_height := res_height resp_t,
           m_target_height := res_target_height resp_t,
           m_block_weight_limit :=
             (if res_block_weight_limit resp_t \<noteq> 0 then res_block_weight_limit resp_t
              else res_block_size_limit resp_t),
           m_get_info_time := now,
           m_height_time := now\<rparr>,
         w2)"
  proof (intro impI)
    assume a: "\<not> m_offline p \<and> m_get_info_time p + 30 \<le>s now \<and> r
      \<and> res_status resp_t = CORE_RPC_STATUS_OK"
    then have "RETURN_ON_RPC_RESPONSE_ERROR r resp_t = None"
      by (simp add: RETURN_ON_RPC_RESPONSE_ERROR_None)
    with a fetch show "get_info p w =
        (None,
         p\<lparr>m_height := res_height resp_t,
           m_target_height := res_target_height resp_t,
           m_block_weight_limit :=
             (if res_block_weight_limit resp_t \<noteq> 0 then res_block_weight_limit resp_t
              else res_block_size_limit resp_t),
           m_get_info_time := now,
           m_height_time := now\<rparr>,
         w2)"
      by simp
  qed
  from keep off cached down empty busy other ok show ?thesis by blast
qed

theorem get_info_failure_keeps_cache_witness:
  "get_info used_proxy
     (world_with 1030 [] True (daemon_reply\<lparr>res_status := CORE_RPC_STATUS_BUSY\<rparr>)) =
     (Some CORE_RPC_STATUS_BUSY, used_proxy,
      (world_with 1030 [] True (daemon_reply\<lparr>res_status := CORE_RPC_STATUS_BUSY\<rparr>))
        \<lparr>clock_reads := 1, calls := [GET_INFO]\<rparr>)
   \<and> fst (snd (get_info used_proxy
        (world_with 1030 [] True
           (daemon_reply\<lparr>res_height := 101, res_block_weight_limit := 0\<rparr>)))) =
       used_proxy\<lparr>m_height := 101, m_block_weight_limit := 600000,
         m_get_info_time := 1030, m_height_time := 1030\<rparr>"
proof -
  let ?busy = "daemon_reply\<lparr>res_status := CORE_RPC_STATUS_BUSY\<rparr>"
  let ?ok = "daemon_reply\<lparr>res_height := 101, res_block_weight_limit := 0\<rparr>"
  have t1: "1030 = clock (world_with 1030 [] True ?busy) (clock_reads (world_with 1030 [] True ?busy))"
    by (simp add: world_with_def)
  have n1: "net (world_with 1030 [] True ?busy) (length (calls (world_with 1030 [] True ?busy))) GET_INFO
      = (True, ?busy)"
    by (simp add: world_with_def)
  have t2: "1030 = clock (world_with 1030 [] True ?ok) (clock_reads (world_with 1030 [] True ?ok))"
    by (simp add: world_with_def)
  have n2: "net (world_with 1030 [] True ?ok) (length (calls (world_with 1030 [] True ?ok))) GET_INFO
      = (True, ?ok)"
    by (simp add: world_with_def)
  have busy: "get_info used_proxy (world_with 1030 [] True ?busy) =
      (Some CORE_RPC_STATUS_BUSY, used_proxy,
       (world_with 1030 [] True ?busy)\<lparr>clock_reads := 1, calls := [GET_INFO]\<rparr>)"
    using get_info_failure_keeps_cache [OF t1 n1 refl, where p = used_proxy]
    by (simp add: used_proxy_def world_with_def)
  have ok: "fst (snd (get_info used_proxy (world_with 1030 [] True ?ok))) =
      used_proxy\<lparr>m_height := 101, m_block_weight_limit := 600000,
        m_get_info_time := 1030, m_height_time := 1030\<rparr>"
    using get_info_failure_keeps_cache [OF t2 n2 refl, where p = used_proxy]
    by (simp add: used_proxy_def daemon_reply_def)
  from busy ok show ?thesis by simp
qed

text \<open>\<open>get_height\<close>, by the way it is taken.\<close>

lemma get_height_fresh:
  "clock w (clock_reads w) <s m_height_time p + 30 \<Longrightarrow>
   get_height p w = (Inr (m_height p), p, w\<lparr>clock_reads := Suc (clock_reads w)\<rparr>)"
  by (simp add: get_height_def time_NULL_def)

lemma get_height_stale:
  "m_height_time p + 30 \<le>s clock w (clock_reads w) \<Longrightarrow>
   get_height p w =
     (case get_info p (w\<lparr>clock_reads := Suc (clock_reads w)\<rparr>) of
        (Some e, p', w2) \<Rightarrow> (Inl e, p', w2)
      | (None, p', w2) \<Rightarrow> (Inr (m_height p'), p', w2))"
  by (simp add: get_height_def time_NULL_def flip: not_before_iff)

lemma get_height_calls:
  "calls (snd (snd (get_height p w))) =
     (if m_height_time p + 30 \<le>s clock w (clock_reads w) \<and> \<not> m_offline p
         \<and> m_get_info_time p + 30 \<le>s clock w (Suc (clock_reads w))
      then calls w @ [GET_INFO] else calls w)"
proof (cases "m_height_time p + 30 \<le>s clock w (clock_reads w)")
  case True
  let ?w1 = "w\<lparr>clock_reads := Suc (clock_reads w)\<rparr>"
  have "calls (snd (snd (get_height p w))) = calls (snd (snd (get_info p ?w1)))"
    using True by (simp add: get_height_stale split: prod.splits option.splits)
  then show ?thesis using True by (simp add: get_info_calls)
next
  case False
  then have "clock w (clock_reads w) <s m_height_time p + 30"
    by (simp flip: not_before_iff)
  with False show ?thesis by (simp add: get_height_fresh)
qed

text \<open>The members that \<open>get_info\<close> and \<open>get_height\<close> never write.\<close>

lemma get_info_frame:
  "get_info p w = (res, p', w') \<Longrightarrow>
   m_offline p' = m_offline p
   \<and> m_all_service_nodes p' = m_all_service_nodes p
   \<and> m_all_service_nodes_cached_height p' = m_all_service_nodes_cached_height p
   \<and> m_earliest_height p' = m_earliest_height p
   \<and> m_dynamic_base_fee_estimate p' = m_dynamic_base_fee_estimate p
   \<and> m_dynamic_base_fee_estimate_cached_height p' = m_dynamic_base_fee_estimate_cached_height p
   \<and> m_dynamic_base_fee_estimate_grace_blocks p' = m_dynamic_base_fee_estimate_grace_blocks p
   \<and> m_fee_quantization_mask p' = m_fee_quantization_mask p
   \<and> m_rpc_version p' = m_rpc_version p"
  by (auto simp: get_info_def time_NULL_def invoke_http_json_rpc_def
      split: if_splits option.splits prod.splits)

lemma get_height_frame:
  "get_height p w = (res, p', w') \<Longrightarrow>
   m_offline p' = m_offline p
   \<and> m_all_service_nodes p' = m_all_service_nodes p
   \<and> m_all_service_nodes_cached_height p' = m_all_service_nodes_cached_height p
   \<and> m_earliest_height p' = m_earliest_height p
   \<and> m_dynamic_base_fee_estimate p' = m_dynamic_base_fee_estimate p
   \<and> m_dynamic_base_fee_estimate_cached_height p' = m_dynamic_base_fee_estimate_cached_height p
   \<and> m_dynamic_base_fee_estimate_grace_blocks p' = m_dynamic_base_fee_estimate_grace_blocks p
   \<and> m_fee_quantization_mask p' = m_fee_quantization_mask p
   \<and> m_rpc_version p' = m_rpc_version p"
proof (cases "m_height_time p + 30 \<le>s clock w (clock_reads w)")
  case True
  assume g: "get_height p w = (res, p', w')"
  obtain r1 p1 w1 where i: "get_info p (w\<lparr>clock_reads := Suc (clock_reads w)\<rparr>) = (r1, p1, w1)"
    by (metis prod_cases3)
  from g i True have "p' = p1"
    by (simp add: get_height_stale split: option.splits)
  with get_info_frame [OF i] show ?thesis by simp
next
  case False
  assume g: "get_height p w = (res, p', w')"
  from False have "clock w (clock_reads w) <s m_height_time p + 30"
    by (simp flip: not_before_iff)
  with g show ?thesis by (simp add: get_height_fresh)
qed

lemma get_height_Inr_height: "get_height p w = (Inr h, p', w') \<Longrightarrow> h = m_height p'"
  by (auto simp: get_height_def time_NULL_def split: if_splits option.splits prod.splits)

text \<open>
  Beyond the bound the sum wraps around: with \<open>height_time\<close> ten seconds before
  \<open>LONG_MAX\<close>, a call at that very time finds \<open>height_time + 30\<close> negative, takes
  the stale path and fetches.
\<close>

lemma get_height_wraps:
  "calls (snd (snd (get_height (used_proxy\<lparr>m_height_time := 9223372036854775797\<rparr>)
     (world_with 9223372036854775797 [] True daemon_reply)))) = [GET_INFO]"
  by (simp add: get_height_def get_info_def time_NULL_def invoke_http_json_rpc_def
      RETURN_ON_RPC_RESPONSE_ERROR_def CHECK_AND_ASSERT_MES_def CORE_RPC_STATUS_OK_def
      CORE_RPC_STATUS_BUSY_def used_proxy_def world_with_def daemon_reply_def)

subsection \<open>C5: the 30 second window of \<open>get_height\<close>\<close>

text \<open>
  C5 says that a \<open>get_height\<close> call made 30 seconds or more after \<open>height_time\<close>
  triggers a network call. It delegates to \<open>get_info\<close>, which has two guards of its
  own. First example: an offline proxy, called 1000 seconds after \<open>height_time\<close>,
  makes no call. Second example: a fresh proxy fetches at time 1000, the wall clock is
  then set back, \<open>set_height\<close> is pushed at time 900, and \<open>get_height\<close> at time
  950 (50 seconds after the push) makes no call, because \<open>get_info\<close> last
  succeeded at time 1000.
\<close>

theorem get_height_stale_counterexample:
  "sint (m_height_time (used_proxy\<lparr>m_offline := True\<rparr>)) + 30 \<le> 2000
   \<and> calls (snd (snd (get_height (used_proxy\<lparr>m_offline := True\<rparr>)
        (world_with 2000 [] True daemon_reply)))) = []
   \<and> (case get_height pristine_proxy (world_with 1000 [1000, 900, 950, 950] True daemon_reply) of
        (r1, p1, w1) \<Rightarrow>
          (case set_height 101 p1 w1 of
             (p2, w2) \<Rightarrow>
               calls w1 = [GET_INFO]
               \<and> sint (m_height_time p2) + 30 \<le> sint (clock w2 (clock_reads w2))
               \<and> get_height p2 w2 = (Inr 101, p2, w2\<lparr>clock_reads := 5\<rparr>)
               \<and> calls (snd (snd (get_height p2 w2))) = calls w2))"
  by (simp add: get_height_def get_info_def set_height_def time_NULL_def invoke_http_json_rpc_def
      RETURN_ON_RPC_RESPONSE_ERROR_def CHECK_AND_ASSERT_MES_def CORE_RPC_STATUS_OK_def
      CORE_RPC_STATUS_BUSY_def used_proxy_def pristine_proxy_def world_with_def daemon_reply_def)

text \<open>
  C5, amended. The times are those for which \<open>height_time + 30\<close> is still a time
  (at most \<open>LONG_MAX\<close>); beyond, the sum of the code wraps around. A \<open>get_height\<close>
  call that reads a time before \<open>height_time + 30\<close> returns the cached height, makes
  no network call and leaves the members as they are, whatever \<open>get_info_time\<close> is
  and however \<open>height_time\<close> was set; so a height pushed by \<open>set_height\<close> is
  returned by a call within 30 seconds of the push. A call that reads
  \<open>height_time + 30\<close> or later delegates to \<open>get_info\<close>; it makes one network
  call, \<open>get_info\<close>, exactly when the proxy is not offline and the time \<open>get_info\<close>
  reads passes its own test \<open>get_info_time + 30 \<le>s now\<close>, and none otherwise. The
  call is made in particular when the proxy is not offline,
  \<open>get_info_time \<le> height_time\<close> and the clock has not gone back between the two
  readings. The first conjunct is the code's own test, with no bound on the times.
\<close>

theorem get_height_window:
  fixes p :: "'e NodeRPCProxy" and w :: "'e world"
  assumes "t = clock w (clock_reads w)" and "t' = clock w (Suc (clock_reads w))"
    and "w1 = w\<lparr>clock_reads := Suc (clock_reads w)\<rparr>"
  shows
    "(t <s m_height_time p + 30 \<longrightarrow> get_height p w = (Inr (m_height p), p, w1))
     \<and> (sint (m_height_time p) + 30 \<le> LONG_MAX \<and> sint t < sint (m_height_time p) + 30 \<longrightarrow>
          get_height p w = (Inr (m_height p), p, w1))
     \<and> (sint t + 30 \<le> LONG_MAX \<and> sint t' < sint t + 30 \<longrightarrow>
          (case set_height h p w of (p', w') \<Rightarrow> get_height p' w') =
            (Inr h, p\<lparr>m_height := h, m_height_time := t\<rparr>,
             w\<lparr>clock_reads := Suc (Suc (clock_reads w))\<rparr>))
     \<and> (sint (m_height_time p) + 30 \<le> LONG_MAX \<and> sint (m_height_time p) + 30 \<le> sint t \<longrightarrow>
          get_height p w =
            (case get_info p w1 of
               (Some e, p', w2) \<Rightarrow> (Inl e, p', w2)
             | (None, p', w2) \<Rightarrow> (Inr (m_height p'), p', w2))
          \<and> calls (snd (snd (get_height p w))) =
              (if \<not> m_offline p \<and> m_get_info_time p + 30 \<le>s t'
               then calls w @ [GET_INFO] else calls w))
     \<and> (sint (m_height_time p) + 30 \<le> LONG_MAX \<and> sint (m_height_time p) + 30 \<le> sint t
          \<and> \<not> m_offline p \<and> sint (m_get_info_time p) \<le> sint (m_height_time p)
          \<and> sint t \<le> sint t' \<longrightarrow>
          calls (snd (snd (get_height p w))) = calls w @ [GET_INFO])"
proof -
  have code: "t <s m_height_time p + 30 \<longrightarrow> get_height p w = (Inr (m_height p), p, w1)"
    unfolding assms by (simp add: get_height_fresh)
  have fresh: "sint (m_height_time p) + 30 \<le> LONG_MAX \<and> sint t < sint (m_height_time p) + 30 \<longrightarrow>
      get_height p w = (Inr (m_height p), p, w1)"
    using code by (simp add: before_plus_30)
  have push: "sint t + 30 \<le> LONG_MAX \<and> sint t' < sint t + 30 \<longrightarrow>
      (case set_height h p w of (p', w') \<Rightarrow> get_height p' w') =
        (Inr h, p\<lparr>m_height := h, m_height_time := t\<rparr>,
         w\<lparr>clock_reads := Suc (Suc (clock_reads w))\<rparr>)"
  proof (intro impI, elim conjE)
    assume "sint t + 30 \<le> LONG_MAX" "sint t' < sint t + 30"
    then have "t' <s t + 30"
      by (simp add: before_plus_30)
    then show "(case set_height h p w of (p', w') \<Rightarrow> get_height p' w') =
        (Inr h, p\<lparr>m_height := h, m_height_time := t\<rparr>,
         w\<lparr>clock_reads := Suc (Suc (clock_reads w))\<rparr>)"
      unfolding assms by (simp add: set_height_def time_NULL_def get_height_fresh)
  qed
  have stale: "sint (m_height_time p) + 30 \<le> LONG_MAX
      \<and> sint (m_height_time p) + 30 \<le> sint t \<longrightarrow>
      get_height p w =
        (case get_info p w1 of
           (Some e, p', w2) \<Rightarrow> (Inl e, p', w2)
         | (None, p', w2) \<Rightarrow> (Inr (m_height p'), p', w2))"
  proof (intro impI, elim conjE)
    assume "sint (m_height_time p) + 30 \<le> LONG_MAX" "sint (m_height_time p) + 30 \<le> sint t"
    then have "m_height_time p + 30 \<le>s t"
      by (simp add: from_plus_30)
    then show "get_height p w =
        (case get_info p w1 of
           (Some e, p', w2) \<Rightarrow> (Inl e, p', w2)
         | (None, p', w2) \<Rightarrow> (Inr (m_height p'), p', w2))"
      unfolding assms by (simp add: get_height_stale)
  qed
  have count: "sint (m_height_time p) + 30 \<le> LONG_MAX
      \<and> sint (m_height_time p) + 30 \<le> sint t \<longrightarrow>
      calls (snd (snd (get_height p w))) =
        (if \<not> m_offline p \<and> m_get_info_time p + 30 \<le>s t'
         then calls w @ [GET_INFO] else calls w)"
  proof (intro impI, elim conjE)
    assume "sint (m_height_time p) + 30 \<le> LONG_MAX" "sint (m_height_time p) + 30 \<le> sint t"
    then have "m_height_time p + 30 \<le>s t"
      by (simp add: from_plus_30)
    then show "calls (snd (snd (get_height p w))) =
        (if \<not> m_offline p \<and> m_get_info_time p + 30 \<le>s t'
         then calls w @ [GET_INFO] else calls w)"
      unfolding assms by (simp add: get_height_calls)
  qed
  have call: "sint (m_height_time p) + 30 \<le> LONG_MAX \<and> sint (m_height_time p) + 30 \<le> sint t
      \<and> \<not> m_offline p \<and> sint (m_get_info_time p) \<le> sint (m_height_time p)
      \<and> sint t \<le> sint t' \<longrightarrow>
      calls (snd (snd (get_height p w))) = calls w @ [GET_INFO]"
  proof (intro impI, elim conjE)
    assume r: "sint (m_height_time p) + 30 \<le> LONG_MAX"
      and s: "sint (m_height_time p) + 30 \<le> sint t"
      and on: "\<not> m_offline p"
      and i: "sint (m_get_info_time p) \<le> sint (m_height_time p)"
      and m: "sint t \<le> sint t'"
    from r s have a: "m_height_time p + 30 \<le>s t"
      by (simp add: from_plus_30)
    from r i have "sint (m_get_info_time p) + 30 \<le> LONG_MAX"
      by simp
    moreover from s i m have "sint (m_get_info_time p) + 30 \<le> sint t'"
      by simp
    ultimately have b: "m_get_info_time p + 30 \<le>s t'"
      by (simp add: from_plus_30)
    from a b on show "calls (snd (snd (get_height p w))) = calls w @ [GET_INFO]"
      unfolding assms by (simp add: get_height_calls)
  qed
  from code fresh push stale count call show ?thesis by blast
qed

theorem get_height_window_witness:
  "get_height used_proxy (world_with 1029 [] True daemon_reply) =
     (Inr 100, used_proxy, (world_with 1029 [] True daemon_reply)\<lparr>clock_reads := 1\<rparr>)
   \<and> calls (snd (snd (get_height used_proxy (world_with 1030 [] True daemon_reply)))) = [GET_INFO]
   \<and> (case set_height 7 used_proxy (world_with 5000 [5029] True daemon_reply) of
        (p', w') \<Rightarrow> fst (get_height p' w')) = Inr 7"
proof -
  let ?w = "world_with 1029 [] True daemon_reply"
  let ?v = "world_with 1030 [] True daemon_reply"
  let ?u = "world_with 5000 [5029] True daemon_reply"
  have "sint (m_height_time used_proxy) + 30 \<le> LONG_MAX
      \<and> sint (clock ?w (clock_reads ?w)) < sint (m_height_time used_proxy) + 30"
    by (simp add: used_proxy_def world_with_def LONG_MAX_def)
  with get_height_window [OF refl refl refl, where p = used_proxy and w = ?w and h = 0]
  have "get_height used_proxy ?w =
      (Inr (m_height used_proxy), used_proxy, ?w\<lparr>clock_reads := Suc (clock_reads ?w)\<rparr>)"
    by blast
  then have a: "get_height used_proxy ?w = (Inr 100, used_proxy, ?w\<lparr>clock_reads := 1\<rparr>)"
    by (simp add: used_proxy_def world_with_def)
  have "sint (m_height_time used_proxy) + 30 \<le> LONG_MAX
      \<and> sint (m_height_time used_proxy) + 30 \<le> sint (clock ?v (clock_reads ?v))
      \<and> \<not> m_offline used_proxy
      \<and> sint (m_get_info_time used_proxy) \<le> sint (m_height_time used_proxy)
      \<and> sint (clock ?v (clock_reads ?v)) \<le> sint (clock ?v (Suc (clock_reads ?v)))"
    by (simp add: used_proxy_def world_with_def LONG_MAX_def)
  with get_height_window [OF refl refl refl, where p = used_proxy and w = ?v and h = 0]
  have "calls (snd (snd (get_height used_proxy ?v))) = calls ?v @ [GET_INFO]"
    by blast
  then have b: "calls (snd (snd (get_height used_proxy ?v))) = [GET_INFO]"
    by (simp add: world_with_def)
  have "sint (clock ?u (clock_reads ?u)) + 30 \<le> LONG_MAX
      \<and> sint (clock ?u (Suc (clock_reads ?u))) < sint (clock ?u (clock_reads ?u)) + 30"
    by (simp add: world_with_def LONG_MAX_def)
  with get_height_window [OF refl refl refl, where p = used_proxy and w = ?u and h = 7]
  have "(case set_height 7 used_proxy ?u of (p', w') \<Rightarrow> get_height p' w') =
      (Inr 7, used_proxy\<lparr>m_height := 7, m_height_time := clock ?u (clock_reads ?u)\<rparr>,
       ?u\<lparr>clock_reads := Suc (Suc (clock_reads ?u))\<rparr>)"
    by blast
  then have c: "(case set_height 7 used_proxy ?u of (p', w') \<Rightarrow> fst (get_height p' w')) = Inr 7"
    by (simp split: prod.splits)
  from a b c show ?thesis by simp
qed

subsection \<open>C9: offline mode\<close>

text \<open>
  C9: on an offline proxy \<open>get_rpc_version\<close>, \<open>get_info\<close> and
  \<open>get_earliest_height\<close> return the error \<open>offline\<close> at once, with no network
  call and nothing changed, while \<open>get_hardfork_version\<close> and \<open>get_service_nodes\<close>
  make their network call all the same: they do not look at the offline flag, and
  answer as they do on a proxy that is not offline.
\<close>

theorem offline_accessors:
  fixes p :: "'e NodeRPCProxy" and w :: "'e world"
  assumes "m_offline p"
  shows
    "get_rpc_version p w = (Inl ''offline'', p, w)
     \<and> get_info p w = (Some ''offline'', p, w)
     \<and> get_earliest_height version p w = (Inl ''offline'', p, w)
     \<and> calls (snd (snd (get_hardfork_version p w))) = calls w @ [HARD_FORK_INFO 0]
     \<and> calls (snd (snd (get_service_nodes pubkeys failed p w))) =
         calls w @ [GET_SERVICE_NODES pubkeys]
     \<and> fst (get_hardfork_version p w) = fst (get_hardfork_version (p\<lparr>m_offline := False\<rparr>) w)
     \<and> fst (get_service_nodes pubkeys failed p w) =
         fst (get_service_nodes pubkeys failed (p\<lparr>m_offline := False\<rparr>) w)"
proof -
  have "get_rpc_version p w = (Inl ''offline'', p, w)"
    using assms by (simp add: get_rpc_version_def)
  moreover have "get_info p w = (Some ''offline'', p, w)"
    using assms by (simp add: get_info_def)
  moreover have "get_earliest_height version p w = (Inl ''offline'', p, w)"
    using assms by (simp add: get_earliest_height_def)
  moreover have "calls (snd (snd (get_hardfork_version p w))) = calls w @ [HARD_FORK_INFO 0]"
    by (simp add: get_hardfork_version_def CHECK_AND_ASSERT_MES_def invoke_http_json_rpc_def split: prod.splits)
  moreover have "calls (snd (snd (get_service_nodes pubkeys failed p w))) =
      calls w @ [GET_SERVICE_NODES pubkeys]"
    by (simp add: get_service_nodes_def invoke_http_json_rpc_def split: prod.splits)
  moreover have "fst (get_hardfork_version p w) =
      fst (get_hardfork_version (p\<lparr>m_offline := False\<rparr>) w)"
    by (simp add: get_hardfork_version_def CHECK_AND_ASSERT_MES_def invoke_http_json_rpc_def split: prod.splits)
  moreover have "fst (get_service_nodes pubkeys failed p w) =
      fst (get_service_nodes pubkeys failed (p\<lparr>m_offline := False\<rparr>) w)"
    by (simp add: get_service_nodes_def invoke_http_json_rpc_def split: prod.splits)
  ultimately show ?thesis by simp
qed

theorem offline_accessors_witness:
  "m_offline (pristine_proxy\<lparr>m_offline := True\<rparr>)
   \<and> get_rpc_version (pristine_proxy\<lparr>m_offline := True\<rparr>) (world_with 50 [] True daemon_reply) =
       (Inl ''offline'', pristine_proxy\<lparr>m_offline := True\<rparr>, world_with 50 [] True daemon_reply)
   \<and> get_info (pristine_proxy\<lparr>m_offline := True\<rparr>) (world_with 50 [] True daemon_reply) =
       (Some ''offline'', pristine_proxy\<lparr>m_offline := True\<rparr>, world_with 50 [] True daemon_reply)
   \<and> get_earliest_height 5 (pristine_proxy\<lparr>m_offline := True\<rparr>)
         (world_with 50 [] True daemon_reply) =
       (Inl ''offline'', pristine_proxy\<lparr>m_offline := True\<rparr>, world_with 50 [] True daemon_reply)
   \<and> calls (snd (snd (get_hardfork_version (pristine_proxy\<lparr>m_offline := True\<rparr>)
         (world_with 50 [] True daemon_reply)))) = [HARD_FORK_INFO 0]
   \<and> fst (get_hardfork_version (pristine_proxy\<lparr>m_offline := True\<rparr>)
         (world_with 50 [] True daemon_reply)) = Some 9
   \<and> calls (snd (snd (get_service_nodes [''key''] None (pristine_proxy\<lparr>m_offline := True\<rparr>)
         (world_with 50 [] True daemon_reply)))) = [GET_SERVICE_NODES [''key'']]"
proof -
  have off: "m_offline (pristine_proxy\<lparr>m_offline := True\<rparr>)"
    by simp
  have hf: "fst (get_hardfork_version (pristine_proxy\<lparr>m_offline := True\<rparr>)
      (world_with 50 [] True daemon_reply)) = Some 9"
    by (simp add: get_hardfork_version_def CHECK_AND_ASSERT_MES_def invoke_http_json_rpc_def world_with_def
        daemon_reply_def status_OK_not_BUSY)
  have c: "calls (world_with 50 [] True daemon_reply) = []"
    by (simp add: world_with_def)
  show ?thesis
    using offline_accessors [OF off, where w = "world_with 50 [] True daemon_reply"
        and version = 5 and pubkeys = "[''key'']" and failed = None] hf c
    by simp
qed

subsection \<open>C10: \<open>get_height\<close> on an offline proxy\<close>

text \<open>
  C10: \<open>get_height\<close> does not check the offline flag itself. On an offline proxy a
  call that reads a time before \<open>height_time + 30\<close> succeeds with the cached height
  (so a height pushed by \<open>set_height\<close> is returned within 30 seconds of the push);
  a call that reads \<open>height_time + 30\<close> or later goes to \<open>get_info\<close> and fails with
  the error \<open>offline\<close>. Neither makes a network call or changes a member. The times
  are those for which \<open>height_time + 30\<close> is still a time (at most \<open>LONG_MAX\<close>);
  the first conjunct is the call by the code's own test, with no bound on the times.
\<close>

theorem get_height_offline:
  fixes p :: "'e NodeRPCProxy" and w :: "'e world"
  assumes "m_offline p"
    and "t = clock w (clock_reads w)" and "t' = clock w (Suc (clock_reads w))"
    and "w1 = w\<lparr>clock_reads := Suc (clock_reads w)\<rparr>"
  shows
    "get_height p w =
       (if t <s m_height_time p + 30 then (Inr (m_height p), p, w1)
        else (Inl ''offline'', p, w1))
     \<and> (sint (m_height_time p) + 30 \<le> LONG_MAX \<and> sint t < sint (m_height_time p) + 30 \<longrightarrow>
          get_height p w = (Inr (m_height p), p, w1))
     \<and> (sint (m_height_time p) + 30 \<le> LONG_MAX \<and> sint (m_height_time p) + 30 \<le> sint t \<longrightarrow>
          get_height p w = (Inl ''offline'', p, w1))
     \<and> (sint t + 30 \<le> LONG_MAX \<and> sint t' < sint t + 30 \<longrightarrow>
          (case set_height h p w of (p', w') \<Rightarrow> fst (get_height p' w')) = Inr h)
     \<and> (sint t + 30 \<le> LONG_MAX \<and> sint t + 30 \<le> sint t' \<longrightarrow>
          (case set_height h p w of (p', w') \<Rightarrow> fst (get_height p' w')) = Inl ''offline'')"
proof -
  have code: "get_height p w =
      (if t <s m_height_time p + 30 then (Inr (m_height p), p, w1)
       else (Inl ''offline'', p, w1))"
  proof (cases "t <s m_height_time p + 30")
    case True
    then show ?thesis
      unfolding assms(2,4) by (simp add: get_height_fresh)
  next
    case False
    then have "m_height_time p + 30 \<le>s t"
      by (simp add: not_before_iff)
    with False show ?thesis
      unfolding assms(2,4) using assms(1) by (simp add: get_height_stale get_info_offline)
  qed
  have fresh: "sint (m_height_time p) + 30 \<le> LONG_MAX \<and> sint t < sint (m_height_time p) + 30 \<longrightarrow>
      get_height p w = (Inr (m_height p), p, w1)"
    using code by (simp add: before_plus_30)
  have stale: "sint (m_height_time p) + 30 \<le> LONG_MAX
      \<and> sint (m_height_time p) + 30 \<le> sint t \<longrightarrow>
      get_height p w = (Inl ''offline'', p, w1)"
    using code by (auto simp: before_plus_30)
  have push: "sint t + 30 \<le> LONG_MAX \<and> sint t' < sint t + 30 \<longrightarrow>
      (case set_height h p w of (p', w') \<Rightarrow> fst (get_height p' w')) = Inr h"
  proof (intro impI, elim conjE)
    assume "sint t + 30 \<le> LONG_MAX" "sint t' < sint t + 30"
    then have "t' <s t + 30"
      by (simp add: before_plus_30)
    then show "(case set_height h p w of (p', w') \<Rightarrow> fst (get_height p' w')) = Inr h"
      unfolding assms(2,3) by (simp add: set_height_def time_NULL_def get_height_fresh)
  qed
  have late: "sint t + 30 \<le> LONG_MAX \<and> sint t + 30 \<le> sint t' \<longrightarrow>
      (case set_height h p w of (p', w') \<Rightarrow> fst (get_height p' w')) = Inl ''offline''"
  proof (intro impI, elim conjE)
    assume "sint t + 30 \<le> LONG_MAX" "sint t + 30 \<le> sint t'"
    then have "t + 30 \<le>s t'"
      by (simp add: from_plus_30)
    then show "(case set_height h p w of (p', w') \<Rightarrow> fst (get_height p' w')) = Inl ''offline''"
      unfolding assms(2,3) using assms(1)
      by (simp add: set_height_def time_NULL_def get_height_stale get_info_offline)
  qed
  from code fresh stale push late show ?thesis by blast
qed

theorem get_height_offline_witness:
  "m_offline (used_proxy\<lparr>m_offline := True\<rparr>)
   \<and> fst (get_height (used_proxy\<lparr>m_offline := True\<rparr>) (world_with 1029 [] True daemon_reply)) =
       Inr 100
   \<and> fst (get_height (used_proxy\<lparr>m_offline := True\<rparr>) (world_with 1030 [] True daemon_reply)) =
       Inl ''offline''
   \<and> (case set_height 7 (used_proxy\<lparr>m_offline := True\<rparr>)
             (world_with 5000 [5029] True daemon_reply) of
        (p', w') \<Rightarrow> fst (get_height p' w')) = Inr 7"
proof -
  let ?p = "used_proxy\<lparr>m_offline := True\<rparr>"
  let ?w = "world_with 1029 [] True daemon_reply"
  let ?v = "world_with 1030 [] True daemon_reply"
  let ?u = "world_with 5000 [5029] True daemon_reply"
  have off: "m_offline ?p"
    by simp
  have "sint (m_height_time ?p) + 30 \<le> LONG_MAX
      \<and> sint (clock ?w (clock_reads ?w)) < sint (m_height_time ?p) + 30"
    by (simp add: used_proxy_def world_with_def LONG_MAX_def)
  with get_height_offline [OF off refl refl refl, where w = ?w and h = 0]
  have "get_height ?p ?w = (Inr (m_height ?p), ?p, ?w\<lparr>clock_reads := Suc (clock_reads ?w)\<rparr>)"
    by blast
  then have a: "fst (get_height ?p ?w) = Inr 100"
    by (simp add: used_proxy_def)
  have "sint (m_height_time ?p) + 30 \<le> LONG_MAX
      \<and> sint (m_height_time ?p) + 30 \<le> sint (clock ?v (clock_reads ?v))"
    by (simp add: used_proxy_def world_with_def LONG_MAX_def)
  with get_height_offline [OF off refl refl refl, where w = ?v and h = 0]
  have "get_height ?p ?v = (Inl ''offline'', ?p, ?v\<lparr>clock_reads := Suc (clock_reads ?v)\<rparr>)"
    by blast
  then have b: "fst (get_height ?p ?v) = Inl ''offline''"
    by simp
  have "sint (clock ?u (clock_reads ?u)) + 30 \<le> LONG_MAX
      \<and> sint (clock ?u (Suc (clock_reads ?u))) < sint (clock ?u (clock_reads ?u)) + 30"
    by (simp add: world_with_def LONG_MAX_def)
  with get_height_offline [OF off refl refl refl, where w = ?u and h = 7]
  have c: "(case set_height 7 ?p ?u of (p', w') \<Rightarrow> fst (get_height p' w')) = Inr 7"
    by blast
  from off a b c show ?thesis by simp
qed

subsection \<open>\<open>get_earliest_height\<close>\<close>

lemma get_earliest_height_hit:
  "\<not> m_offline p \<Longrightarrow> m_earliest_height p version \<noteq> 0 \<Longrightarrow>
   get_earliest_height version p w = (Inr (m_earliest_height p version), p, w)"
  by (simp add: get_earliest_height_def)

lemma get_earliest_height_Inr:
  "get_earliest_height version p w = (Inr x, p', w') \<Longrightarrow>
   \<not> m_offline p' \<and> m_earliest_height p' version = x"
  by (auto simp: get_earliest_height_def invoke_http_json_rpc_def
      split: if_splits option.splits prod.splits)

subsection \<open>C7: the slots of \<open>earliest_height\<close> are independent\<close>

text \<open>
  C7: for fork versions \<open>v \<noteq> u\<close>, a call \<open>get_earliest_height(v)\<close> leaves slot
  \<open>u\<close> as it was and changes no member other than slot \<open>v\<close>; and it does not read
  slot \<open>u\<close>: with any other value \<open>x\<close> in slot \<open>u\<close> the call returns the same
  result, makes the same network calls and leaves the same members, slot \<open>u\<close>
  holding \<open>x\<close>.
\<close>

theorem get_earliest_height_independent:
  fixes p :: "'e NodeRPCProxy" and w :: "'e world"
  assumes "v \<noteq> u" and "get_earliest_height v p w = (res, p', w')"
  shows
    "m_earliest_height p' u = m_earliest_height p u
     \<and> p' = p\<lparr>m_earliest_height := (m_earliest_height p)(v := m_earliest_height p' v)\<rparr>
     \<and> get_earliest_height v (p\<lparr>m_earliest_height := (m_earliest_height p)(u := x)\<rparr>) w =
         (res, p'\<lparr>m_earliest_height := (m_earliest_height p')(u := x)\<rparr>, w')"
proof -
  have frame: "p' = p\<lparr>m_earliest_height := (m_earliest_height p)(v := m_earliest_height p' v)\<rparr>"
    using assms(2)
    by (auto simp: get_earliest_height_def invoke_http_json_rpc_def fun_upd_idem
        split: if_splits option.splits prod.splits)
  have "m_earliest_height p' u =
      m_earliest_height (p\<lparr>m_earliest_height := (m_earliest_height p)(v := m_earliest_height p' v)\<rparr>) u"
    using frame by simp
  then have other: "m_earliest_height p' u = m_earliest_height p u"
    using assms(1) by simp
  have unread: "get_earliest_height v (p\<lparr>m_earliest_height := (m_earliest_height p)(u := x)\<rparr>) w =
      (res, p'\<lparr>m_earliest_height := (m_earliest_height p')(u := x)\<rparr>, w')"
    using assms
    by (auto simp: get_earliest_height_def invoke_http_json_rpc_def fun_upd_twist
        split: if_splits option.splits prod.splits)
  from other frame unread show ?thesis by blast
qed

theorem get_earliest_height_independent_witness:
  "(5 :: u8) \<noteq> 7
   \<and> get_earliest_height 7 used_proxy (world_with 50 [] True daemon_reply) =
       (Inr 1234,
        used_proxy\<lparr>m_earliest_height := (m_earliest_height used_proxy)(7 := 1234)\<rparr>,
        (world_with 50 [] True daemon_reply)\<lparr>calls := [HARD_FORK_INFO 7]\<rparr>)
   \<and> m_earliest_height (fst (snd (get_earliest_height 7 used_proxy
         (world_with 50 [] True daemon_reply)))) 5 = 77"
proof -
  let ?w = "world_with 50 [] True daemon_reply"
  let ?p' = "used_proxy\<lparr>m_earliest_height := (m_earliest_height used_proxy)(7 := 1234)\<rparr>"
  have ne: "(7 :: u8) \<noteq> 5"
    by simp
  have run: "get_earliest_height 7 used_proxy ?w =
      (Inr 1234, ?p', ?w\<lparr>calls := [HARD_FORK_INFO 7]\<rparr>)"
    by (simp add: get_earliest_height_def invoke_http_json_rpc_def
        RETURN_ON_RPC_RESPONSE_ERROR_def CHECK_AND_ASSERT_MES_def CORE_RPC_STATUS_OK_def CORE_RPC_STATUS_BUSY_def
        used_proxy_def world_with_def daemon_reply_def)
  from get_earliest_height_independent [OF ne run, where x = 0]
  have "m_earliest_height ?p' 5 = m_earliest_height used_proxy 5"
    by blast
  then have "m_earliest_height ?p' 5 = 77"
    by (simp add: used_proxy_def)
  with run show ?thesis by simp
qed

subsection \<open>C8: a version is fetched once, unless the daemon answers 0\<close>

text \<open>
  C8 says that after the first successful \<open>get_earliest_height(v)\<close> every later call
  for \<open>v\<close> is served from the cache, whatever value the daemon returned. The cache
  marks an unfetched slot by 0, so a returned 0 is fetched again: in the example the
  daemon answers 0 for version 7, the first call succeeds, and the second call makes a
  network call again.
\<close>

theorem get_earliest_height_zero_counterexample:
  "(case get_earliest_height 7 pristine_proxy
           (world_with 50 [] True (daemon_reply\<lparr>res_earliest_height := 0\<rparr>)) of
      (r1, p1, w1) \<Rightarrow>
        r1 = Inr 0
        \<and> calls w1 = [HARD_FORK_INFO 7]
        \<and> calls (snd (snd (get_earliest_height 7 p1 w1))) = [HARD_FORK_INFO 7, HARD_FORK_INFO 7])"
  by (simp add: get_earliest_height_def invoke_http_json_rpc_def
      RETURN_ON_RPC_RESPONSE_ERROR_def CHECK_AND_ASSERT_MES_def CORE_RPC_STATUS_OK_def CORE_RPC_STATUS_BUSY_def
      pristine_proxy_def world_with_def daemon_reply_def)

text \<open>
  C8, amended: when a call \<open>get_earliest_height(v)\<close> succeeds with a value \<open>x\<close>
  that is not 0, every later call for \<open>v\<close>, in any world, returns \<open>x\<close> again,
  makes no network call and changes no member (so the same holds for the call after
  it, and in every later state that is not offline and still has \<open>x\<close> in slot
  \<open>v\<close>); this holds for every non-zero value the daemon returned. When the call
  succeeds with 0, the next call for \<open>v\<close> makes the network call again.
\<close>

theorem get_earliest_height_fetched_once:
  fixes p :: "'e NodeRPCProxy" and w w2 :: "'e world"
  assumes "get_earliest_height v p w = (Inr x, p', w')"
  shows
    "(x \<noteq> 0 \<longrightarrow> get_earliest_height v p' w2 = (Inr x, p', w2))
     \<and> (x \<noteq> 0 \<longrightarrow>
          (\<forall>q. \<not> m_offline q \<and> m_earliest_height q v = x \<longrightarrow>
             get_earliest_height v q w2 = (Inr x, q, w2)))
     \<and> (x = 0 \<longrightarrow>
          calls (snd (snd (get_earliest_height v p' w2))) = calls w2 @ [HARD_FORK_INFO v])"
proof -
  from get_earliest_height_Inr [OF assms]
  have on: "\<not> m_offline p'" and slot: "m_earliest_height p' v = x"
    by simp_all
  have hit: "x \<noteq> 0 \<longrightarrow> get_earliest_height v p' w2 = (Inr x, p', w2)"
    using on slot get_earliest_height_hit [of p' v w2] by simp
  have later: "x \<noteq> 0 \<longrightarrow>
      (\<forall>q. \<not> m_offline q \<and> m_earliest_height q v = x \<longrightarrow>
         get_earliest_height v q w2 = (Inr x, q, w2))"
    using get_earliest_height_hit [of _ v w2] by auto
  have miss: "x = 0 \<longrightarrow>
      calls (snd (snd (get_earliest_height v p' w2))) = calls w2 @ [HARD_FORK_INFO v]"
    using on slot
    by (simp add: get_earliest_height_def invoke_http_json_rpc_def
        split: option.splits prod.splits)
  from hit later miss show ?thesis by blast
qed

theorem get_earliest_height_fetched_once_witness:
  "get_earliest_height 7 pristine_proxy (world_with 50 [] True daemon_reply) =
     (Inr 1234,
      pristine_proxy\<lparr>m_earliest_height := (m_earliest_height pristine_proxy)(7 := 1234)\<rparr>,
      (world_with 50 [] True daemon_reply)\<lparr>calls := [HARD_FORK_INFO 7]\<rparr>)
   \<and> get_earliest_height 7
       (pristine_proxy\<lparr>m_earliest_height := (m_earliest_height pristine_proxy)(7 := 1234)\<rparr>)
       (world_with 60 [] False daemon_reply) =
     (Inr 1234,
      pristine_proxy\<lparr>m_earliest_height := (m_earliest_height pristine_proxy)(7 := 1234)\<rparr>,
      world_with 60 [] False daemon_reply)"
proof -
  let ?w = "world_with 50 [] True daemon_reply"
  let ?p' = "pristine_proxy\<lparr>m_earliest_height := (m_earliest_height pristine_proxy)(7 := 1234)\<rparr>"
  have run: "get_earliest_height 7 pristine_proxy ?w =
      (Inr 1234, ?p', ?w\<lparr>calls := [HARD_FORK_INFO 7]\<rparr>)"
    by (simp add: get_earliest_height_def invoke_http_json_rpc_def
        RETURN_ON_RPC_RESPONSE_ERROR_def CHECK_AND_ASSERT_MES_def CORE_RPC_STATUS_OK_def CORE_RPC_STATUS_BUSY_def
        pristine_proxy_def world_with_def daemon_reply_def)
  from get_earliest_height_fetched_once [OF run, where ?w2.0 = "world_with 60 [] False daemon_reply"]
  have "get_earliest_height 7 ?p' (world_with 60 [] False daemon_reply) =
      (Inr 1234, ?p', world_with 60 [] False daemon_reply)"
    by simp
  with run show ?thesis by simp
qed

subsection \<open>The fee estimate\<close>

text \<open>
  The two fee accessors after \<open>get_height\<close> has returned height \<open>h\<close>, members
  \<open>p1\<close> and world \<open>w1\<close>.
\<close>

lemma get_dynamic_base_fee_estimate_hit:
  "get_height p w = (Inr h, p1, w1) \<Longrightarrow> \<not> m_offline p1 \<Longrightarrow>
   m_dynamic_base_fee_estimate_cached_height p1 = h \<Longrightarrow>
   m_dynamic_base_fee_estimate_grace_blocks p1 = g \<Longrightarrow>
   get_dynamic_base_fee_estimate g p w = (Inr (m_dynamic_base_fee_estimate p1), p1, w1)"
  by (simp add: get_dynamic_base_fee_estimate_def)

lemma get_dynamic_base_fee_estimate_miss:
  "get_height p w = (Inr h, p1, w1) \<Longrightarrow> \<not> m_offline p1 \<Longrightarrow>
   m_dynamic_base_fee_estimate_cached_height p1 \<noteq> h
     \<or> m_dynamic_base_fee_estimate_grace_blocks p1 \<noteq> g \<Longrightarrow>
   net w1 (length (calls w1)) (GET_FEE_ESTIMATE g) = (r, resp_t) \<Longrightarrow>
   get_dynamic_base_fee_estimate g p w =
     (case RETURN_ON_RPC_RESPONSE_ERROR r resp_t of
        Some e \<Rightarrow> (Inl e, p1, w1\<lparr>calls := calls w1 @ [GET_FEE_ESTIMATE g]\<rparr>)
      | None \<Rightarrow>
          (Inr (res_fee resp_t),
           p1\<lparr>m_dynamic_base_fee_estimate := res_fee resp_t,
             m_dynamic_base_fee_estimate_cached_height := h,
             m_dynamic_base_fee_estimate_grace_blocks := g,
             m_fee_quantization_mask := res_quantization_mask resp_t\<rparr>,
           w1\<lparr>calls := calls w1 @ [GET_FEE_ESTIMATE g]\<rparr>))"
  by (auto simp: get_dynamic_base_fee_estimate_def invoke_http_json_rpc_def
      split: option.splits)

lemma get_fee_quantization_mask_miss:
  "get_height p w = (Inr h, p1, w1) \<Longrightarrow> \<not> m_offline p1 \<Longrightarrow>
   m_dynamic_base_fee_estimate_cached_height p1 \<noteq> h \<Longrightarrow>
   net w1 (length (calls w1)) (GET_FEE_ESTIMATE (m_dynamic_base_fee_estimate_grace_blocks p1)) =
     (r, resp_t) \<Longrightarrow>
   get_fee_quantization_mask p w =
     (case RETURN_ON_RPC_RESPONSE_ERROR r resp_t of
        Some e \<Rightarrow>
          (Inl e, p1,
           w1\<lparr>calls := calls w1 @
             [GET_FEE_ESTIMATE (m_dynamic_base_fee_estimate_grace_blocks p1)]\<rparr>)
      | None \<Rightarrow>
          (Inr (if res_quantization_mask resp_t = 0 then 1 else res_quantization_mask resp_t),
           p1\<lparr>m_dynamic_base_fee_estimate := res_fee resp_t,
             m_dynamic_base_fee_estimate_cached_height := h,
             m_fee_quantization_mask := res_quantization_mask resp_t\<rparr>,
           w1\<lparr>calls := calls w1 @
             [GET_FEE_ESTIMATE (m_dynamic_base_fee_estimate_grace_blocks p1)]\<rparr>))"
  by (auto simp: get_fee_quantization_mask_def invoke_http_json_rpc_def Let_def
      split: option.splits)

lemma get_fee_quantization_mask_hit:
  "get_height p w = (Inr h, p1, w1) \<Longrightarrow> \<not> m_offline p1 \<Longrightarrow>
   m_dynamic_base_fee_estimate_cached_height p1 = h \<Longrightarrow>
   get_fee_quantization_mask p w =
     (Inr (if m_fee_quantization_mask p1 = 0 then 1 else m_fee_quantization_mask p1), p1, w1)"
  by (simp add: get_fee_quantization_mask_def Let_def)

lemma get_fee_quantization_mask_Inr:
  "get_fee_quantization_mask p w = (Inr m, p', w') \<Longrightarrow>
   m = (if m_fee_quantization_mask p' = 0 then 1 else m_fee_quantization_mask p')"
  by (auto simp: get_fee_quantization_mask_def Let_def
      split: if_splits option.splits prod.splits sum.splits)

subsection \<open>C2: the quantization mask is coerced when it is returned\<close>

text \<open>
  C2 says that a zero mask from the daemon is coerced to 1 before it is stored. Both
  paths store the mask as the daemon sent it: in the example the daemon answers with
  mask 0, and after either accessor the member \<open>m_fee_quantization_mask\<close> is 0
  (\<open>get_fee_quantization_mask\<close> returns 1 all the same).
\<close>

theorem fee_quantization_mask_stored_counterexample:
  "m_fee_quantization_mask (fst (snd (get_fee_quantization_mask pristine_proxy
       (world_with 1000 [] True (daemon_reply\<lparr>res_quantization_mask := 0\<rparr>))))) = 0
   \<and> fst (get_fee_quantization_mask pristine_proxy
       (world_with 1000 [] True (daemon_reply\<lparr>res_quantization_mask := 0\<rparr>))) = Inr 1
   \<and> m_fee_quantization_mask (fst (snd (get_dynamic_base_fee_estimate 2 pristine_proxy
       (world_with 1000 [] True (daemon_reply\<lparr>res_quantization_mask := 0\<rparr>))))) = 0
   \<and> fst (get_dynamic_base_fee_estimate 2 pristine_proxy
       (world_with 1000 [] True (daemon_reply\<lparr>res_quantization_mask := 0\<rparr>))) = Inr 5000"
  by (simp add: get_fee_quantization_mask_def get_dynamic_base_fee_estimate_def
      get_height_def get_info_def time_NULL_def invoke_http_json_rpc_def
      RETURN_ON_RPC_RESPONSE_ERROR_def CHECK_AND_ASSERT_MES_def CORE_RPC_STATUS_OK_def
      CORE_RPC_STATUS_BUSY_def pristine_proxy_def world_with_def daemon_reply_def)

text \<open>
  C2, amended: every successful \<open>get_fee_quantization_mask\<close> call returns a mask that
  is not zero. On a cache hit (the height that \<open>get_height\<close> resolves is
  \<open>fee_estimate_height\<close>) it returns the mask that was cached before the call, or 1
  when that mask is 0, makes no \<open>get_fee_estimate\<close> call and leaves the cached mask
  as it is. On a miss it fetches, returns the response's \<open>quantization_mask\<close>, or 1
  when that is 0, and stores the response's mask as it is, also when it is 0; when the
  fetch fails the cached mask is kept. \<open>get_dynamic_base_fee_estimate\<close> stores the
  response's mask as it is on a successful fetch, and leaves the cached mask alone on
  a hit. The cache is never coerced.
\<close>

theorem fee_quantization_mask_nonzero:
  fixes p :: "'e NodeRPCProxy" and w :: "'e world"
  shows
    "(\<forall>m p' w'. get_fee_quantization_mask p w = (Inr m, p', w') \<longrightarrow>
        m \<noteq> 0 \<and> m = (if m_fee_quantization_mask p' = 0 then 1 else m_fee_quantization_mask p'))
     \<and> (\<forall>h p1 w1.
          get_height p w = (Inr h, p1, w1) \<and> \<not> m_offline p1
          \<and> m_dynamic_base_fee_estimate_cached_height p1 = h \<longrightarrow>
          get_fee_quantization_mask p w =
            (Inr (if m_fee_quantization_mask p = 0 then 1 else m_fee_quantization_mask p),
             p1, w1)
          \<and> m_fee_quantization_mask p1 = m_fee_quantization_mask p)
     \<and> (\<forall>h p1 w1 resp_t.
          get_height p w = (Inr h, p1, w1) \<and> \<not> m_offline p1
          \<and> m_dynamic_base_fee_estimate_cached_height p1 \<noteq> h
          \<and> net w1 (length (calls w1))
               (GET_FEE_ESTIMATE (m_dynamic_base_fee_estimate_grace_blocks p1)) = (True, resp_t)
          \<and> res_status resp_t = CORE_RPC_STATUS_OK \<longrightarrow>
          get_fee_quantization_mask p w =
            (Inr (if res_quantization_mask resp_t = 0 then 1 else res_quantization_mask resp_t),
             p1\<lparr>m_dynamic_base_fee_estimate := res_fee resp_t,
               m_dynamic_base_fee_estimate_cached_height := h,
               m_fee_quantization_mask := res_quantization_mask resp_t\<rparr>,
             w1\<lparr>calls := calls w1 @
               [GET_FEE_ESTIMATE (m_dynamic_base_fee_estimate_grace_blocks p1)]\<rparr>))
     \<and> (\<forall>h p1 w1 r resp_t.
          get_height p w = (Inr h, p1, w1) \<and> \<not> m_offline p1
          \<and> m_dynamic_base_fee_estimate_cached_height p1 \<noteq> h
          \<and> net w1 (length (calls w1))
               (GET_FEE_ESTIMATE (m_dynamic_base_fee_estimate_grace_blocks p1)) = (r, resp_t)
          \<and> \<not> (r \<and> res_status resp_t = CORE_RPC_STATUS_OK) \<longrightarrow>
          (\<exists>e. fst (get_fee_quantization_mask p w) = Inl e)
          \<and> fst (snd (get_fee_quantization_mask p w)) = p1
          \<and> m_fee_quantization_mask p1 = m_fee_quantization_mask p)
     \<and> (\<forall>h p1 w1 resp_t.
          get_height p w = (Inr h, p1, w1) \<and> \<not> m_offline p1
          \<and> (m_dynamic_base_fee_estimate_cached_height p1 \<noteq> h
               \<or> m_dynamic_base_fee_estimate_grace_blocks p1 \<noteq> g)
          \<and> net w1 (length (calls w1)) (GET_FEE_ESTIMATE g) = (True, resp_t)
          \<and> res_status resp_t = CORE_RPC_STATUS_OK \<longrightarrow>
          get_dynamic_base_fee_estimate g p w =
            (Inr (res_fee resp_t),
             p1\<lparr>m_dynamic_base_fee_estimate := res_fee resp_t,
               m_dynamic_base_fee_estimate_cached_height := h,
               m_dynamic_base_fee_estimate_grace_blocks := g,
               m_fee_quantization_mask := res_quantization_mask resp_t\<rparr>,
             w1\<lparr>calls := calls w1 @ [GET_FEE_ESTIMATE g]\<rparr>))
     \<and> (\<forall>h p1 w1.
          get_height p w = (Inr h, p1, w1) \<and> \<not> m_offline p1
          \<and> m_dynamic_base_fee_estimate_cached_height p1 = h
          \<and> m_dynamic_base_fee_estimate_grace_blocks p1 = g \<longrightarrow>
          get_dynamic_base_fee_estimate g p w = (Inr (m_dynamic_base_fee_estimate p1), p1, w1)
          \<and> m_fee_quantization_mask p1 = m_fee_quantization_mask p)"
proof -
  have ret: "\<forall>m p' w'. get_fee_quantization_mask p w = (Inr m, p', w') \<longrightarrow>
      m \<noteq> 0 \<and> m = (if m_fee_quantization_mask p' = 0 then 1 else m_fee_quantization_mask p')"
    using get_fee_quantization_mask_Inr [of p w] by (auto split: if_splits)
  have ok: "RETURN_ON_RPC_RESPONSE_ERROR True resp_t = None"
    if "res_status resp_t = CORE_RPC_STATUS_OK" for resp_t :: "'e rpc_response"
    using that by (simp add: RETURN_ON_RPC_RESPONSE_ERROR_None)
  have kept: "m_fee_quantization_mask p1 = m_fee_quantization_mask p"
    if "get_height p w = (Inr h, p1, w1)" for h p1 w1
    using get_height_frame [OF that] by simp
  have hit: "\<forall>h p1 w1.
      get_height p w = (Inr h, p1, w1) \<and> \<not> m_offline p1
      \<and> m_dynamic_base_fee_estimate_cached_height p1 = h \<longrightarrow>
      get_fee_quantization_mask p w =
        (Inr (if m_fee_quantization_mask p = 0 then 1 else m_fee_quantization_mask p), p1, w1)
      \<and> m_fee_quantization_mask p1 = m_fee_quantization_mask p"
  proof (intro allI impI, elim conjE)
    fix h p1 w1
    assume gh: "get_height p w = (Inr h, p1, w1)" and on: "\<not> m_offline p1"
      and key: "m_dynamic_base_fee_estimate_cached_height p1 = h"
    from get_fee_quantization_mask_hit [OF gh on key] kept [OF gh]
    show "get_fee_quantization_mask p w =
        (Inr (if m_fee_quantization_mask p = 0 then 1 else m_fee_quantization_mask p), p1, w1)
      \<and> m_fee_quantization_mask p1 = m_fee_quantization_mask p"
      by simp
  qed
  have mask: "\<forall>h p1 w1 resp_t.
      get_height p w = (Inr h, p1, w1) \<and> \<not> m_offline p1
      \<and> m_dynamic_base_fee_estimate_cached_height p1 \<noteq> h
      \<and> net w1 (length (calls w1))
           (GET_FEE_ESTIMATE (m_dynamic_base_fee_estimate_grace_blocks p1)) = (True, resp_t)
      \<and> res_status resp_t = CORE_RPC_STATUS_OK \<longrightarrow>
      get_fee_quantization_mask p w =
        (Inr (if res_quantization_mask resp_t = 0 then 1 else res_quantization_mask resp_t),
         p1\<lparr>m_dynamic_base_fee_estimate := res_fee resp_t,
           m_dynamic_base_fee_estimate_cached_height := h,
           m_fee_quantization_mask := res_quantization_mask resp_t\<rparr>,
         w1\<lparr>calls := calls w1 @
           [GET_FEE_ESTIMATE (m_dynamic_base_fee_estimate_grace_blocks p1)]\<rparr>)"
  proof (intro allI impI, elim conjE)
    fix h p1 w1 and resp_t :: "'e rpc_response"
    assume "get_height p w = (Inr h, p1, w1)" "\<not> m_offline p1"
      "m_dynamic_base_fee_estimate_cached_height p1 \<noteq> h"
      "net w1 (length (calls w1))
         (GET_FEE_ESTIMATE (m_dynamic_base_fee_estimate_grace_blocks p1)) = (True, resp_t)"
      "res_status resp_t = CORE_RPC_STATUS_OK"
    then show "get_fee_quantization_mask p w =
        (Inr (if res_quantization_mask resp_t = 0 then 1 else res_quantization_mask resp_t),
         p1\<lparr>m_dynamic_base_fee_estimate := res_fee resp_t,
           m_dynamic_base_fee_estimate_cached_height := h,
           m_fee_quantization_mask := res_quantization_mask resp_t\<rparr>,
         w1\<lparr>calls := calls w1 @
           [GET_FEE_ESTIMATE (m_dynamic_base_fee_estimate_grace_blocks p1)]\<rparr>)"
      using get_fee_quantization_mask_miss [of p w h p1 w1 True resp_t] ok [of resp_t]
      by simp
  qed
  have failed: "\<forall>h p1 w1 r resp_t.
      get_height p w = (Inr h, p1, w1) \<and> \<not> m_offline p1
      \<and> m_dynamic_base_fee_estimate_cached_height p1 \<noteq> h
      \<and> net w1 (length (calls w1))
           (GET_FEE_ESTIMATE (m_dynamic_base_fee_estimate_grace_blocks p1)) = (r, resp_t)
      \<and> \<not> (r \<and> res_status resp_t = CORE_RPC_STATUS_OK) \<longrightarrow>
      (\<exists>e. fst (get_fee_quantization_mask p w) = Inl e)
      \<and> fst (snd (get_fee_quantization_mask p w)) = p1
      \<and> m_fee_quantization_mask p1 = m_fee_quantization_mask p"
  proof (intro allI impI, elim conjE)
    fix h p1 w1 r and resp_t :: "'e rpc_response"
    assume gh: "get_height p w = (Inr h, p1, w1)" and on: "\<not> m_offline p1"
      and key: "m_dynamic_base_fee_estimate_cached_height p1 \<noteq> h"
      and n: "net w1 (length (calls w1))
         (GET_FEE_ESTIMATE (m_dynamic_base_fee_estimate_grace_blocks p1)) = (r, resp_t)"
      and bad: "\<not> (r \<and> res_status resp_t = CORE_RPC_STATUS_OK)"
    from bad obtain e where "RETURN_ON_RPC_RESPONSE_ERROR r resp_t = Some e"
      using RETURN_ON_RPC_RESPONSE_ERROR_None [of r resp_t]
      by (cases "RETURN_ON_RPC_RESPONSE_ERROR r resp_t") auto
    with get_fee_quantization_mask_miss [OF gh on key n]
    have "get_fee_quantization_mask p w =
        (Inl e, p1,
         w1\<lparr>calls := calls w1 @
           [GET_FEE_ESTIMATE (m_dynamic_base_fee_estimate_grace_blocks p1)]\<rparr>)"
      by simp
    with kept [OF gh]
    show "(\<exists>e. fst (get_fee_quantization_mask p w) = Inl e)
      \<and> fst (snd (get_fee_quantization_mask p w)) = p1
      \<and> m_fee_quantization_mask p1 = m_fee_quantization_mask p"
      by simp
  qed
  have fee: "\<forall>h p1 w1 resp_t.
      get_height p w = (Inr h, p1, w1) \<and> \<not> m_offline p1
      \<and> (m_dynamic_base_fee_estimate_cached_height p1 \<noteq> h
           \<or> m_dynamic_base_fee_estimate_grace_blocks p1 \<noteq> g)
      \<and> net w1 (length (calls w1)) (GET_FEE_ESTIMATE g) = (True, resp_t)
      \<and> res_status resp_t = CORE_RPC_STATUS_OK \<longrightarrow>
      get_dynamic_base_fee_estimate g p w =
        (Inr (res_fee resp_t),
         p1\<lparr>m_dynamic_base_fee_estimate := res_fee resp_t,
           m_dynamic_base_fee_estimate_cached_height := h,
           m_dynamic_base_fee_estimate_grace_blocks := g,
           m_fee_quantization_mask := res_quantization_mask resp_t\<rparr>,
         w1\<lparr>calls := calls w1 @ [GET_FEE_ESTIMATE g]\<rparr>)"
  proof (intro allI impI, elim conjE)
    fix h p1 w1 and resp_t :: "'e rpc_response"
    assume "get_height p w = (Inr h, p1, w1)" "\<not> m_offline p1"
      "m_dynamic_base_fee_estimate_cached_height p1 \<noteq> h
         \<or> m_dynamic_base_fee_estimate_grace_blocks p1 \<noteq> g"
      "net w1 (length (calls w1)) (GET_FEE_ESTIMATE g) = (True, resp_t)"
      "res_status resp_t = CORE_RPC_STATUS_OK"
    then show "get_dynamic_base_fee_estimate g p w =
        (Inr (res_fee resp_t),
         p1\<lparr>m_dynamic_base_fee_estimate := res_fee resp_t,
           m_dynamic_base_fee_estimate_cached_height := h,
           m_dynamic_base_fee_estimate_grace_blocks := g,
           m_fee_quantization_mask := res_quantization_mask resp_t\<rparr>,
         w1\<lparr>calls := calls w1 @ [GET_FEE_ESTIMATE g]\<rparr>)"
      using get_dynamic_base_fee_estimate_miss [of p w h p1 w1 g True resp_t] ok [of resp_t]
      by simp
  qed
  have feehit: "\<forall>h p1 w1.
      get_height p w = (Inr h, p1, w1) \<and> \<not> m_offline p1
      \<and> m_dynamic_base_fee_estimate_cached_height p1 = h
      \<and> m_dynamic_base_fee_estimate_grace_blocks p1 = g \<longrightarrow>
      get_dynamic_base_fee_estimate g p w = (Inr (m_dynamic_base_fee_estimate p1), p1, w1)
      \<and> m_fee_quantization_mask p1 = m_fee_quantization_mask p"
  proof (intro allI impI, elim conjE)
    fix h p1 w1
    assume gh: "get_height p w = (Inr h, p1, w1)" and on: "\<not> m_offline p1"
      and k1: "m_dynamic_base_fee_estimate_cached_height p1 = h"
      and k2: "m_dynamic_base_fee_estimate_grace_blocks p1 = g"
    from get_dynamic_base_fee_estimate_hit [OF gh on k1 k2] kept [OF gh]
    show "get_dynamic_base_fee_estimate g p w = (Inr (m_dynamic_base_fee_estimate p1), p1, w1)
      \<and> m_fee_quantization_mask p1 = m_fee_quantization_mask p"
      by simp
  qed
  from ret hit mask failed fee feehit show ?thesis by blast
qed

theorem fee_quantization_mask_nonzero_witness:
  "fst (get_fee_quantization_mask pristine_proxy
       (world_with 1000 [] True (daemon_reply\<lparr>res_quantization_mask := 0\<rparr>))) = Inr 1
   \<and> (1 :: u64) \<noteq> 0
   \<and> get_fee_quantization_mask used_proxy
        (world_with 1010 [] False (daemon_reply\<lparr>res_quantization_mask := 0\<rparr>)) =
       (Inr 10000, used_proxy,
        (world_with 1010 [] False (daemon_reply\<lparr>res_quantization_mask := 0\<rparr>))
          \<lparr>clock_reads := 1\<rparr>)
   \<and> get_fee_quantization_mask (used_proxy\<lparr>m_fee_quantization_mask := 0\<rparr>)
        (world_with 1010 [] True daemon_reply) =
       (Inr 1, used_proxy\<lparr>m_fee_quantization_mask := 0\<rparr>,
        (world_with 1010 [] True daemon_reply)\<lparr>clock_reads := 1\<rparr>)"
proof -
  let ?z = "world_with 1000 [] True (daemon_reply\<lparr>res_quantization_mask := 0\<rparr>)"
  let ?d = "world_with 1010 [] False (daemon_reply\<lparr>res_quantization_mask := 0\<rparr>)"
  let ?w = "world_with 1010 [] True daemon_reply"
  let ?q = "used_proxy\<lparr>m_fee_quantization_mask := 0\<rparr>"
  obtain m p' w' where run: "get_fee_quantization_mask pristine_proxy ?z = (Inr m, p', w')"
    and m: "m = 1"
    by (simp add: get_fee_quantization_mask_def get_height_def get_info_def time_NULL_def
        invoke_http_json_rpc_def RETURN_ON_RPC_RESPONSE_ERROR_def CHECK_AND_ASSERT_MES_def
        CORE_RPC_STATUS_OK_def CORE_RPC_STATUS_BUSY_def pristine_proxy_def world_with_def
        daemon_reply_def)
  from fee_quantization_mask_nonzero
    [where p = pristine_proxy and w = ?z and g = 0, THEN conjunct1, rule_format, OF run]
  have "m \<noteq> 0"
    by simp
  with run m have a: "fst (get_fee_quantization_mask pristine_proxy ?z) = Inr 1 \<and> (1 :: u64) \<noteq> 0"
    by simp
  have hd: "get_height used_proxy ?d = (Inr 100, used_proxy, ?d\<lparr>clock_reads := 1\<rparr>)
      \<and> \<not> m_offline used_proxy
      \<and> m_dynamic_base_fee_estimate_cached_height used_proxy = 100"
    by (simp add: get_height_def time_NULL_def used_proxy_def world_with_def)
  from fee_quantization_mask_nonzero
    [where p = used_proxy and w = ?d and g = 0, THEN conjunct2, THEN conjunct1,
      rule_format, OF hd]
  have "get_fee_quantization_mask used_proxy ?d =
      (Inr (if m_fee_quantization_mask used_proxy = 0 then 1
            else m_fee_quantization_mask used_proxy),
       used_proxy, ?d\<lparr>clock_reads := 1\<rparr>)"
    by simp
  then have b: "get_fee_quantization_mask used_proxy ?d =
      (Inr 10000, used_proxy, ?d\<lparr>clock_reads := 1\<rparr>)"
    by (simp add: used_proxy_def)
  have hq: "get_height ?q ?w = (Inr 100, ?q, ?w\<lparr>clock_reads := 1\<rparr>)
      \<and> \<not> m_offline ?q
      \<and> m_dynamic_base_fee_estimate_cached_height ?q = 100"
    by (simp add: get_height_def time_NULL_def used_proxy_def world_with_def)
  from fee_quantization_mask_nonzero
    [where p = ?q and w = ?w and g = 0, THEN conjunct2, THEN conjunct1, rule_format, OF hq]
  have "get_fee_quantization_mask ?q ?w =
      (Inr (if m_fee_quantization_mask ?q = 0 then 1 else m_fee_quantization_mask ?q),
       ?q, ?w\<lparr>clock_reads := 1\<rparr>)"
    by simp
  then have c: "get_fee_quantization_mask ?q ?w = (Inr 1, ?q, ?w\<lparr>clock_reads := 1\<rparr>)"
    by simp
  from a b c show ?thesis by simp
qed
subsection \<open>C6: the fee cache has one slot, keyed on height and grace blocks\<close>

text \<open>
  C6 says that after the fee for (100, 2) is cached and a call with 3 grace blocks at
  the same height has fetched, a further call with (100, 2) is a cache hit. The cache
  has one slot, and the call with 3 grace blocks has overwritten its key: in the
  example (a fresh proxy, every call at time 1000, the daemon at height 100) the third
  call fetches again. The last line of the example is an offline proxy with a fresh
  height and a matching key: the cached fee is not served, the call fails.
\<close>

theorem fee_estimate_rekey_counterexample:
  "(case get_dynamic_base_fee_estimate 2 pristine_proxy (world_with 1000 [] True daemon_reply) of
      (r1, p1, w1) \<Rightarrow>
        (case get_dynamic_base_fee_estimate 3 p1 w1 of
           (r2, p2, w2) \<Rightarrow>
             (case get_dynamic_base_fee_estimate 2 p2 w2 of
                (r3, p3, w3) \<Rightarrow>
                  r1 = Inr 5000 \<and> m_height p1 = 100
                  \<and> m_dynamic_base_fee_estimate_cached_height p1 = 100
                  \<and> m_dynamic_base_fee_estimate_grace_blocks p1 = 2
                  \<and> calls w1 = [GET_INFO, GET_FEE_ESTIMATE 2]
                  \<and> r2 = Inr 5000 \<and> m_height p2 = 100
                  \<and> m_dynamic_base_fee_estimate_grace_blocks p2 = 3
                  \<and> calls w2 = [GET_INFO, GET_FEE_ESTIMATE 2, GET_FEE_ESTIMATE 3]
                  \<and> r3 = Inr 5000 \<and> m_height p3 = 100
                  \<and> calls w3 =
                      [GET_INFO, GET_FEE_ESTIMATE 2, GET_FEE_ESTIMATE 3, GET_FEE_ESTIMATE 2])))
   \<and> fst (get_dynamic_base_fee_estimate 2 (used_proxy\<lparr>m_offline := True\<rparr>)
        (world_with 1010 [] True daemon_reply)) = Inl ''offline''"
  by (simp add: get_dynamic_base_fee_estimate_def get_height_def get_info_def time_NULL_def
      invoke_http_json_rpc_def RETURN_ON_RPC_RESPONSE_ERROR_def CHECK_AND_ASSERT_MES_def CORE_RPC_STATUS_OK_def
      CORE_RPC_STATUS_BUSY_def pristine_proxy_def used_proxy_def world_with_def daemon_reply_def)

text \<open>
  C6, amended. The fee cache is one slot keyed on the pair (height, grace blocks).
  When \<open>get_height\<close> succeeds with height \<open>h\<close> and the proxy is not offline, the
  cached fee is returned without a \<open>get_fee_estimate\<close> call exactly when \<open>h\<close> is
  \<open>fee_estimate_height\<close> and the requested grace blocks are
  \<open>fee_estimate_grace_blocks\<close>; otherwise one \<open>get_fee_estimate\<close> call is made
  with the requested grace blocks, and when it succeeds the slot is overwritten: it
  holds the returned fee under the key (\<open>h\<close>, requested grace blocks). So after
  the fee for (100, 2) is cached, a call with 3 grace blocks at height 100 makes a
  network call and, when it succeeds, leaves the key (100, 3); a later call with
  (100, 2) is then a miss and makes a network call too.
\<close>

theorem fee_estimate_cache_key:
  fixes p :: "'e NodeRPCProxy" and w :: "'e world"
  assumes "get_height p w = (Inr h, p1, w1)" and "\<not> m_offline p1"
    and "net w1 (length (calls w1)) (GET_FEE_ESTIMATE g) = (r, resp_t)"
    and "w2 = w1\<lparr>calls := calls w1 @ [GET_FEE_ESTIMATE g]\<rparr>"
  shows
    "(calls (snd (snd (get_dynamic_base_fee_estimate g p w))) = calls w1) =
       (m_dynamic_base_fee_estimate_cached_height p1 = h
        \<and> m_dynamic_base_fee_estimate_grace_blocks p1 = g)
     \<and> (m_dynamic_base_fee_estimate_cached_height p1 = h
          \<and> m_dynamic_base_fee_estimate_grace_blocks p1 = g \<longrightarrow>
          get_dynamic_base_fee_estimate g p w = (Inr (m_dynamic_base_fee_estimate p1), p1, w1))
     \<and> (\<not> (m_dynamic_base_fee_estimate_cached_height p1 = h
             \<and> m_dynamic_base_fee_estimate_grace_blocks p1 = g) \<longrightarrow>
          calls (snd (snd (get_dynamic_base_fee_estimate g p w))) =
            calls w1 @ [GET_FEE_ESTIMATE g])
     \<and> (\<not> (m_dynamic_base_fee_estimate_cached_height p1 = h
             \<and> m_dynamic_base_fee_estimate_grace_blocks p1 = g)
          \<and> r \<and> res_status resp_t = CORE_RPC_STATUS_OK \<longrightarrow>
          get_dynamic_base_fee_estimate g p w =
            (Inr (res_fee resp_t),
             p1\<lparr>m_dynamic_base_fee_estimate := res_fee resp_t,
               m_dynamic_base_fee_estimate_cached_height := h,
               m_dynamic_base_fee_estimate_grace_blocks := g,
               m_fee_quantization_mask := res_quantization_mask resp_t\<rparr>,
             w2))
     \<and> (\<not> (m_dynamic_base_fee_estimate_cached_height p1 = h
             \<and> m_dynamic_base_fee_estimate_grace_blocks p1 = g)
          \<and> \<not> (r \<and> res_status resp_t = CORE_RPC_STATUS_OK) \<longrightarrow>
          snd (get_dynamic_base_fee_estimate g p w) = (p1, w2)
          \<and> (\<exists>e. fst (get_dynamic_base_fee_estimate g p w) = Inl e))"
proof (cases "m_dynamic_base_fee_estimate_cached_height p1 = h
    \<and> m_dynamic_base_fee_estimate_grace_blocks p1 = g")
  case True
  then have "get_dynamic_base_fee_estimate g p w = (Inr (m_dynamic_base_fee_estimate p1), p1, w1)"
    using assms(1,2) by (simp add: get_dynamic_base_fee_estimate_hit)
  with True show ?thesis by simp
next
  case False
  then have key: "m_dynamic_base_fee_estimate_cached_height p1 \<noteq> h
      \<or> m_dynamic_base_fee_estimate_grace_blocks p1 \<noteq> g"
    by simp
  note run = get_dynamic_base_fee_estimate_miss [OF assms(1) assms(2) key assms(3)]
  show ?thesis
  proof (cases "r \<and> res_status resp_t = CORE_RPC_STATUS_OK")
    case True
    then have "RETURN_ON_RPC_RESPONSE_ERROR r resp_t = None"
      by (simp add: RETURN_ON_RPC_RESPONSE_ERROR_None)
    with run have "get_dynamic_base_fee_estimate g p w =
        (Inr (res_fee resp_t),
         p1\<lparr>m_dynamic_base_fee_estimate := res_fee resp_t,
           m_dynamic_base_fee_estimate_cached_height := h,
           m_dynamic_base_fee_estimate_grace_blocks := g,
           m_fee_quantization_mask := res_quantization_mask resp_t\<rparr>,
         w2)"
      unfolding assms(4) by simp
    with True key show ?thesis
      unfolding assms(4) by auto
  next
    case bad: False
    then obtain e where "RETURN_ON_RPC_RESPONSE_ERROR r resp_t = Some e"
      using RETURN_ON_RPC_RESPONSE_ERROR_None [of r resp_t] by (cases "RETURN_ON_RPC_RESPONSE_ERROR r resp_t") auto
    with run have "get_dynamic_base_fee_estimate g p w = (Inl e, p1, w2)"
      unfolding assms(4) by simp
    with bad key show ?thesis
      unfolding assms(4) by auto
  qed
qed

theorem fee_estimate_cache_key_witness:
  "get_dynamic_base_fee_estimate 2 used_proxy (world_with 1010 [] True daemon_reply) =
     (Inr 5000, used_proxy, (world_with 1010 [] True daemon_reply)\<lparr>clock_reads := 1\<rparr>)
   \<and> calls (snd (snd (get_dynamic_base_fee_estimate 3 used_proxy
        (world_with 1010 [] True daemon_reply)))) = [GET_FEE_ESTIMATE 3]
   \<and> m_dynamic_base_fee_estimate_grace_blocks (fst (snd (get_dynamic_base_fee_estimate 3
        used_proxy (world_with 1010 [] True daemon_reply)))) = 3"
proof -
  let ?w = "world_with 1010 [] True daemon_reply"
  let ?w1 = "?w\<lparr>clock_reads := 1\<rparr>"
  have gh: "get_height used_proxy ?w = (Inr 100, used_proxy, ?w1)"
    by (simp add: get_height_def time_NULL_def used_proxy_def world_with_def)
  have on: "\<not> m_offline used_proxy"
    by (simp add: used_proxy_def)
  have n2: "net ?w1 (length (calls ?w1)) (GET_FEE_ESTIMATE 2) = (True, daemon_reply)"
    and n3: "net ?w1 (length (calls ?w1)) (GET_FEE_ESTIMATE 3) = (True, daemon_reply)"
    by (simp_all add: world_with_def)
  have key: "m_dynamic_base_fee_estimate_cached_height used_proxy = 100"
    "m_dynamic_base_fee_estimate_grace_blocks used_proxy = 2"
    "m_dynamic_base_fee_estimate used_proxy = 5000"
    by (simp_all add: used_proxy_def)
  have ok: "res_status daemon_reply = CORE_RPC_STATUS_OK"
    by (simp add: daemon_reply_def)
  from fee_estimate_cache_key [OF gh on n2 refl] key
  have a: "get_dynamic_base_fee_estimate 2 used_proxy ?w = (Inr 5000, used_proxy, ?w1)"
    by simp
  from fee_estimate_cache_key [OF gh on n3 refl] key ok
  have "get_dynamic_base_fee_estimate 3 used_proxy ?w =
      (Inr (res_fee daemon_reply),
       used_proxy\<lparr>m_dynamic_base_fee_estimate := res_fee daemon_reply,
         m_dynamic_base_fee_estimate_cached_height := 100,
         m_dynamic_base_fee_estimate_grace_blocks := 3,
         m_fee_quantization_mask := res_quantization_mask daemon_reply\<rparr>,
       ?w1\<lparr>calls := calls ?w1 @ [GET_FEE_ESTIMATE 3]\<rparr>)"
    by simp
  then have b: "calls (snd (snd (get_dynamic_base_fee_estimate 3 used_proxy ?w))) =
        [GET_FEE_ESTIMATE 3]
      \<and> m_dynamic_base_fee_estimate_grace_blocks
          (fst (snd (get_dynamic_base_fee_estimate 3 used_proxy ?w))) = 3"
    by (simp add: world_with_def)
  from a b show ?thesis by simp
qed

subsection \<open>C3: the failures of \<open>get_all_service_nodes\<close>\<close>

text \<open>
  C3. \<open>get_all_service_nodes\<close> has resolved the height \<open>h\<close> and the cached roster is
  for another height, so it fetches. When the transport fails or the daemon reports the
  busy status, the call returns an error and an empty result, and \<open>all_service_nodes\<close>
  and \<open>all_service_nodes_height\<close> are what they were before the call. When the daemon
  reports any other status that is not OK, the call stores \<open>h\<close> (the current height)
  in \<open>all_service_nodes_height\<close> and the response's roster in \<open>all_service_nodes\<close>,
  and returns that roster with the status as the error.
\<close>

theorem get_all_service_nodes_failures:
  fixes p :: "'e NodeRPCProxy" and w :: "'e world"
  assumes "get_height p w = (Inr h, p1, w1)"
    and "m_all_service_nodes_cached_height p1 \<noteq> h"
    and "net w1 (length (calls w1)) GET_ALL_SERVICE_NODES = (r, res)"
    and "w2 = w1\<lparr>calls := calls w1 @ [GET_ALL_SERVICE_NODES]\<rparr>"
  shows
    "(\<not> r \<longrightarrow>
        get_all_service_nodes p w = (([], Some ''Failed to connect to daemon''), p1, w2))
     \<and> (r \<and> res_status res = CORE_RPC_STATUS_BUSY \<longrightarrow>
          get_all_service_nodes p w = (([], Some CORE_RPC_STATUS_BUSY), p1, w2))
     \<and> m_all_service_nodes p1 = m_all_service_nodes p
     \<and> m_all_service_nodes_cached_height p1 = m_all_service_nodes_cached_height p
     \<and> h = m_height p1
     \<and> (r \<and> res_status res \<noteq> CORE_RPC_STATUS_BUSY \<and> res_status res \<noteq> CORE_RPC_STATUS_OK \<longrightarrow>
          get_all_service_nodes p w =
            ((res_service_node_states res, Some (res_status res)),
             p1\<lparr>m_all_service_nodes_cached_height := h,
               m_all_service_nodes := res_service_node_states res\<rparr>,
             w2))"
proof -
  have down: "\<not> r \<longrightarrow>
      get_all_service_nodes p w = (([], Some ''Failed to connect to daemon''), p1, w2)"
    using assms by (simp add: get_all_service_nodes_def invoke_http_json_rpc_def)
  have busy: "r \<and> res_status res = CORE_RPC_STATUS_BUSY \<longrightarrow>
      get_all_service_nodes p w = (([], Some CORE_RPC_STATUS_BUSY), p1, w2)"
    using assms by (simp add: get_all_service_nodes_def invoke_http_json_rpc_def)
  have kept: "m_all_service_nodes p1 = m_all_service_nodes p"
    "m_all_service_nodes_cached_height p1 = m_all_service_nodes_cached_height p"
    using get_height_frame [OF assms(1)] by simp_all
  have cur: "h = m_height p1"
    using get_height_Inr_height [OF assms(1)] .
  have other: "r \<and> res_status res \<noteq> CORE_RPC_STATUS_BUSY
      \<and> res_status res \<noteq> CORE_RPC_STATUS_OK \<longrightarrow>
      get_all_service_nodes p w =
        ((res_service_node_states res, Some (res_status res)),
         p1\<lparr>m_all_service_nodes_cached_height := h,
           m_all_service_nodes := res_service_node_states res\<rparr>,
         w2)"
    using assms by (simp add: get_all_service_nodes_def invoke_http_json_rpc_def Let_def)
  from down busy kept cur other show ?thesis by blast
qed

theorem get_all_service_nodes_failures_witness:
  "get_all_service_nodes (used_proxy\<lparr>m_all_service_nodes_cached_height := 99\<rparr>)
     (world_with 1010 [] True (daemon_reply\<lparr>res_status := ''Internal error''\<rparr>)) =
     (([''sn1'', ''sn2''], Some ''Internal error''),
      used_proxy\<lparr>m_all_service_nodes_cached_height := 100,
        m_all_service_nodes := [''sn1'', ''sn2'']\<rparr>,
      (world_with 1010 [] True (daemon_reply\<lparr>res_status := ''Internal error''\<rparr>))
        \<lparr>clock_reads := 1, calls := [GET_ALL_SERVICE_NODES]\<rparr>)
   \<and> get_all_service_nodes (used_proxy\<lparr>m_all_service_nodes_cached_height := 99\<rparr>)
     (world_with 1010 [] True (daemon_reply\<lparr>res_status := CORE_RPC_STATUS_BUSY\<rparr>)) =
     (([], Some CORE_RPC_STATUS_BUSY),
      used_proxy\<lparr>m_all_service_nodes_cached_height := 99\<rparr>,
      (world_with 1010 [] True (daemon_reply\<lparr>res_status := CORE_RPC_STATUS_BUSY\<rparr>))
        \<lparr>clock_reads := 1, calls := [GET_ALL_SERVICE_NODES]\<rparr>)"
proof -
  let ?p = "used_proxy\<lparr>m_all_service_nodes_cached_height := 99\<rparr>"
  let ?e = "daemon_reply\<lparr>res_status := ''Internal error''\<rparr>"
  let ?b = "daemon_reply\<lparr>res_status := CORE_RPC_STATUS_BUSY\<rparr>"
  let ?we = "world_with 1010 [] True ?e"
  let ?wb = "world_with 1010 [] True ?b"
  have ghe: "get_height ?p ?we = (Inr 100, ?p, ?we\<lparr>clock_reads := 1\<rparr>)"
    and ghb: "get_height ?p ?wb = (Inr 100, ?p, ?wb\<lparr>clock_reads := 1\<rparr>)"
    by (simp_all add: get_height_def time_NULL_def used_proxy_def world_with_def)
  have old: "m_all_service_nodes_cached_height ?p \<noteq> 100"
    by simp
  have ne: "net (?we\<lparr>clock_reads := 1\<rparr>) (length (calls (?we\<lparr>clock_reads := 1\<rparr>)))
      GET_ALL_SERVICE_NODES = (True, ?e)"
    and nb: "net (?wb\<lparr>clock_reads := 1\<rparr>) (length (calls (?wb\<lparr>clock_reads := 1\<rparr>)))
      GET_ALL_SERVICE_NODES = (True, ?b)"
    by (simp_all add: world_with_def)
  have st: "res_status ?e \<noteq> CORE_RPC_STATUS_BUSY \<and> res_status ?e \<noteq> CORE_RPC_STATUS_OK"
    by (simp add: CORE_RPC_STATUS_OK_def CORE_RPC_STATUS_BUSY_def)
  from get_all_service_nodes_failures [OF ghe old ne refl] st
  have "get_all_service_nodes ?p ?we =
      ((res_service_node_states ?e, Some (res_status ?e)),
       ?p\<lparr>m_all_service_nodes_cached_height := 100,
         m_all_service_nodes := res_service_node_states ?e\<rparr>,
       ?we\<lparr>clock_reads := 1, calls := calls (?we\<lparr>clock_reads := 1\<rparr>) @ [GET_ALL_SERVICE_NODES]\<rparr>)"
    by simp
  then have a: "get_all_service_nodes ?p ?we =
      (([''sn1'', ''sn2''], Some ''Internal error''),
       used_proxy\<lparr>m_all_service_nodes_cached_height := 100,
         m_all_service_nodes := [''sn1'', ''sn2'']\<rparr>,
       ?we\<lparr>clock_reads := 1, calls := [GET_ALL_SERVICE_NODES]\<rparr>)"
    by (simp add: daemon_reply_def world_with_def)
  from get_all_service_nodes_failures [OF ghb old nb refl]
  have "get_all_service_nodes ?p ?wb =
      (([], Some CORE_RPC_STATUS_BUSY), ?p,
       ?wb\<lparr>clock_reads := 1, calls := calls (?wb\<lparr>clock_reads := 1\<rparr>) @ [GET_ALL_SERVICE_NODES]\<rparr>)"
    by simp
  then have b: "get_all_service_nodes ?p ?wb =
      (([], Some CORE_RPC_STATUS_BUSY), ?p,
       ?wb\<lparr>clock_reads := 1, calls := [GET_ALL_SERVICE_NODES]\<rparr>)"
    by (simp add: world_with_def)
  from a b show ?thesis by simp
qed

end
